theory Spec2Isabelle
  imports Complex_Main
begin

section \<open>JavaScript values used by the components\<close>

text \<open>
  The components are TypeScript/React. Strings are modelled as \<^typ>\<open>string\<close>; one
  \<^typ>\<open>char\<close> stands for one code unit. A string is falsy exactly when it is empty, so
  \<^verbatim>\<open>s || d\<close> on strings is \<open>js_or\<close> and a JSX child \<^verbatim>\<open>{s && <x/>}\<close> contributes the
  element when \<open>s\<close> is non-empty and nothing visible otherwise.
\<close>

definition js_or :: "string \<Rightarrow> string \<Rightarrow> string" where
  "js_or s d = (if s = [] then d else s)"

text \<open>
  Reading \<^verbatim>\<open>obj[key]\<close> on an object literal finds the literal's own properties first and
  then walks the prototype chain, which for an object literal is \<^verbatim>\<open>Object.prototype\<close>.
  \<open>Value v\<close> is an own property's value, \<open>Inherited k\<close> is the member \<open>k\<close> of
  \<^verbatim>\<open>Object.prototype\<close> (a function, or the prototype object for \<^verbatim>\<open>__proto__\<close>), and
  \<open>Undefined\<close> is \<^verbatim>\<open>undefined\<close>.
\<close>

datatype 'a js_value = Value 'a | Inherited string | Undefined

definition Object_prototype_keys :: "string list" where
  "Object_prototype_keys =
     [''constructor'', ''__defineGetter__'', ''__defineSetter__'', ''hasOwnProperty'',
      ''__lookupGetter__'', ''__lookupSetter__'', ''isPrototypeOf'', ''propertyIsEnumerable'',
      ''toString'', ''valueOf'', ''__proto__'', ''toLocaleString'']"

definition hasOwnProperty :: "(string \<times> 'a) list \<Rightarrow> string \<Rightarrow> bool" where
  "hasOwnProperty obj k = (map_of obj k \<noteq> None)"

definition js_get :: "(string \<times> 'a) list \<Rightarrow> string \<Rightarrow> 'a js_value" where
  "js_get obj k =
     (case map_of obj k of
        Some v \<Rightarrow> Value v
      | None \<Rightarrow> if List.member Object_prototype_keys k then Inherited k else Undefined)"

text \<open>\<^verbatim>\<open>String(n)\<close> for a non-negative integer: its decimal digits.\<close>

definition digit_char :: "nat \<Rightarrow> char" where
  "digit_char n = ''0123456789'' ! n"

fun show_nat :: "nat \<Rightarrow> string" where
  "show_nat n =
     (if n < 10 then [digit_char n] else show_nat (n div 10) @ [digit_char (n mod 10)])"

declare show_nat.simps [simp del]

text \<open>
  \<^verbatim>\<open>String(Object.prototype[k])\<close>: the text of a native function, and
  \<^verbatim>\<open>[object Object]\<close> for the prototype object that \<^verbatim>\<open>__proto__\<close> yields. The white
  space inside the text of a native function is the engine's choice; this is how V8
  prints it.
\<close>

definition inherited_text :: "string \<Rightarrow> string" where
  "inherited_text k =
     (if k = ''__proto__'' then ''[object Object]''
      else if k = ''constructor'' then ''function Object() { [native code] }''
      else ''function '' @ k @ ''() { [native code] }'')"

text \<open>
  \<^verbatim>\<open>String.prototype.trim\<close> strips white space and line terminators from both ends; the
  code units below are the ones in the Latin-1 range.
\<close>

definition is_white_space :: "char \<Rightarrow> bool" where
  "is_white_space c =
     List.member [CHR 0x09, CHR 0x0A, CHR 0x0B, CHR 0x0C, CHR 0x0D, CHR 0x20, CHR 0xA0] c"

definition js_trim :: "string \<Rightarrow> string" where
  "js_trim s = rev (dropWhile is_white_space (rev (dropWhile is_white_space s)))"


section \<open>The data model (\<^verbatim>\<open>@/types/cv\<close>)\<close>

text \<open>
  The type declarations are imported by every component; the fields below are the ones
  the components and the fixtures read and write. Fields of list entities carry the name
  of the loop variable the renderer uses for them (\<^verbatim>\<open>exp.jobTitle\<close> is \<open>exp_jobTitle\<close>),
  because a field name is a constant of the theory. Optional fields are options.
\<close>

record PersonalInfo =
  fullName :: string
  jobTitle :: string
  email :: string
  phone :: string
  address :: string
  website :: string
  photoUrl :: string

record WorkExperience =
  exp_id :: string
  exp_jobTitle :: string
  company :: string
  exp_startDate :: string
  exp_endDate :: string
  current :: bool
  responsibilities :: "string list"

record Education =
  edu_id :: string
  degree :: string
  fieldOfStudy :: string
  institution :: string
  edu_startDate :: string
  edu_endDate :: string
  grade :: "string option"

record Skill =
  skill_id :: string
  skill_name :: string
  level :: string

record Language =
  lang_id :: string
  lang_name :: string
  proficiency :: string

record Certification =
  cert_id :: string
  cert_name :: string
  issuer :: string
  cert_date :: string
  expiryDate :: "string option"

record Reference =
  ref_id :: string
  ref_name :: string
  ref_email :: string
  ref_phone :: string
  organization :: string

record CVData =
  personalInfo :: PersonalInfo
  summary :: string
  workExperience :: "WorkExperience list"
  education :: "Education list"
  skills :: "Skill list"
  languages :: "Language list"
  certifications :: "Certification list"
  references :: "Reference list"

record CVTemplate =
  template_id :: string
  template_name :: string
  template_description :: string
  features :: "string list"
  hasPhoto :: bool
  columns :: nat
  color :: string

text \<open>\<^verbatim>\<open>initialCVData\<close> of CVBuilder.tsx and \<^verbatim>\<open>placeholderData\<close> of placeholderData.ts.\<close>

definition initialCVData :: CVData where
  "initialCVData =
     \<lparr>personalInfo = \<lparr>fullName = [], jobTitle = [], email = [], phone = [], address = [],
                       website = [], photoUrl = []\<rparr>,
      summary = [], workExperience = [], education = [], skills = [], languages = [],
      certifications = [], references = []\<rparr>"

definition placeholderData :: CVData where
  "placeholderData =
     \<lparr>personalInfo =
        \<lparr>fullName = ''Your Name'', jobTitle = ''Your Job Title'',
         email = ''your.email@example.com'', phone = ''+1 (555) 000-0000'',
         address = ''Your City, State'', website = ''www.yourwebsite.com'', photoUrl = []\<rparr>,
      summary = ''Your professional summary goes here. Describe your key achievements, skills, and career objectives in 2-3 sentences.'',
      workExperience =
        [\<lparr>exp_id = ''placeholder-1'', exp_jobTitle = ''Job Title 1'', company = ''Company Name'',
          exp_startDate = [], exp_endDate = [], current = False,
          responsibilities =
            [''Key responsibility 1'', ''Key responsibility 2'', ''Key responsibility 3'']\<rparr>,
         \<lparr>exp_id = ''placeholder-2'', exp_jobTitle = ''Job Title 2'',
          company = ''Previous Company'', exp_startDate = [], exp_endDate = [], current = False,
          responsibilities =
            [''Previous role responsibility 1'', ''Previous role responsibility 2'']\<rparr>],
      education =
        [\<lparr>edu_id = ''placeholder-1'', degree = ''Your Degree'', fieldOfStudy = ''Field of Study'',
          institution = ''Institution Name'', edu_startDate = [], edu_endDate = [],
          grade = Some ''Your average''\<rparr>],
      skills =
        [\<lparr>skill_id = ''placeholder-1'', skill_name = ''Skill 1'', level = ''Advanced''\<rparr>,
         \<lparr>skill_id = ''placeholder-2'', skill_name = ''Skill 2'', level = ''Expert''\<rparr>,
         \<lparr>skill_id = ''placeholder-3'', skill_name = ''Skill 3'', level = ''Intermediate''\<rparr>,
         \<lparr>skill_id = ''placeholder-4'', skill_name = ''Skill 4'', level = ''Advanced''\<rparr>],
      languages =
        [\<lparr>lang_id = ''placeholder-1'', lang_name = ''Language 1'', proficiency = ''Native''\<rparr>,
         \<lparr>lang_id = ''placeholder-2'', lang_name = ''Language 2'', proficiency = ''Fluent''\<rparr>],
      certifications =
        [\<lparr>cert_id = ''placeholder-1'', cert_name = ''Certification Name'',
          issuer = ''Issuing Organization'', cert_date = [], expiryDate = Some []\<rparr>],
      references =
        [\<lparr>ref_id = ''placeholder-1'', ref_name = ''Reference Name'',
          ref_email = ''reference@company.com'', ref_phone = ''+1 (555) 000-0000'',
          organization = ''Company Name''\<rparr>]\<rparr>"


section \<open>CVPreview: the helpers\<close>

text \<open>
  CVPreview.tsx holds two revisions of the component. The first (lines 16--683) injects the
  theme colours into the document root from an effect; the second (lines 701--1220) binds
  them on its own root element and adds the \<^verbatim>\<open>isFullPagePDF\<close> and \<^verbatim>\<open>unbounded\<close> flags.
  Where the two revisions differ, the definitions carry the suffixes \<open>_v1\<close> and \<open>_v2\<close>.
\<close>

subsection \<open>\<^verbatim>\<open>formatDate\<close>\<close>

text \<open>
  \<^verbatim>\<open>new Date(dateString)\<close> and \<^verbatim>\<open>toLocaleDateString\<close> belong to the host. A host is
  modelled by what the renderer can observe of \<^verbatim>\<open>new Date(s)\<close>: the calendar year and
  month of the Date as the host's formatter sees them, or \<open>None\<close> when the string does not
  parse (the Date is invalid). The year is the proleptic Gregorian year, so it is an
  integer: the year 0 and the years before it exist.

  For \<^verbatim>\<open>'en-US'\<close> with \<^verbatim>\<open>{ year: 'numeric', month: 'short' }\<close>, \<^verbatim>\<open>toLocaleDateString\<close> prints
  the abbreviated month, a space and the year of the era in all its digits: the year
  \<open>y\<close> itself from 1 on, and \<open>1 - y\<close> for the years up to 0 (the year 0 prints as 1, the
  year -1 as 2). It prints \<^verbatim>\<open>Invalid Date\<close> for an invalid Date.
\<close>

datatype month = Jan | Feb | Mar | Apr | May | Jun | Jul | Aug | Sep | Oct | Nov | Dec

type_synonym js_host = "string \<Rightarrow> (int \<times> month) option"

fun month_short :: "month \<Rightarrow> string" where
  "month_short Jan = ''Jan''"
| "month_short Feb = ''Feb''"
| "month_short Mar = ''Mar''"
| "month_short Apr = ''Apr''"
| "month_short May = ''May''"
| "month_short Jun = ''Jun''"
| "month_short Jul = ''Jul''"
| "month_short Aug = ''Aug''"
| "month_short Sep = ''Sep''"
| "month_short Oct = ''Oct''"
| "month_short Nov = ''Nov''"
| "month_short Dec = ''Dec''"

definition era_year :: "int \<Rightarrow> nat" where
  "era_year y = (if 1 \<le> y then nat y else nat (1 - y))"

definition toLocaleDateString :: "(int \<times> month) option \<Rightarrow> string" where
  "toLocaleDateString d =
     (case d of
        None \<Rightarrow> ''Invalid Date''
      | Some (y, m) \<Rightarrow> month_short m @ '' '' @ show_nat (era_year y))"

definition formatDate :: "js_host \<Rightarrow> string \<Rightarrow> string" where
  "formatDate host dateString =
     (if dateString = [] then [] else toLocaleDateString (host dateString))"

text \<open>
  A concrete host for evaluating the renderer: a host in the UTC time zone, described on
  the date-only forms \<^verbatim>\<open>YYYY-MM\<close> and \<^verbatim>\<open>YYYY-MM-DD\<close> of the ECMAScript date-time string
  format, the forms that the editor's month inputs and the sample data supply. There
  a date of the calendar is read as it stands (a date-only form is a UTC time, and the
  host's zone is UTC), and a month outside 01..12 or a day outside 01..31 makes the Date
  invalid.

  The description says nothing about any other string: a day within 01..31 beyond the
  length of its month, which engines do not read alike, the forms with a time or an
  offset, the year alone, and whatever else an engine's own parser accepts. There the
  answer of the host is \<open>undefined s\<close>, a value of which nothing is known, so that no
  statement about this host holds by what the description leaves out.
\<close>

definition digit_value :: "char \<Rightarrow> nat option" where
  "digit_value c =
     map_of [(CHR ''0'', 0), (CHR ''1'', 1), (CHR ''2'', 2), (CHR ''3'', 3), (CHR ''4'', 4),
             (CHR ''5'', 5), (CHR ''6'', 6), (CHR ''7'', 7), (CHR ''8'', 8), (CHR ''9'', 9)] c"

fun parse_digits :: "nat \<Rightarrow> string \<Rightarrow> nat option" where
  "parse_digits acc [] = Some acc"
| "parse_digits acc (c # cs) =
     (case digit_value c of None \<Rightarrow> None | Some d \<Rightarrow> parse_digits (10 * acc + d) cs)"

definition month_of_index :: "nat \<Rightarrow> month" where
  "month_of_index i = [Jan, Feb, Mar, Apr, May, Jun, Jul, Aug, Sep, Oct, Nov, Dec] ! i"

definition days_in_month :: "nat \<Rightarrow> nat \<Rightarrow> nat" where
  "days_in_month y m =
     (if m = 2 then (if (y mod 4 = 0 \<and> y mod 100 \<noteq> 0) \<or> y mod 400 = 0 then 29 else 28)
      else if m = 4 \<or> m = 6 \<or> m = 9 \<or> m = 11 then 30 else 31)"

definition utc_host :: js_host where
  "utc_host s =
     (if length s = 7 \<and> s ! 4 = CHR ''-'' then
        (case (parse_digits 0 (take 4 s), parse_digits 0 (drop 5 s)) of
           (Some y, Some m) \<Rightarrow>
             if 1 \<le> m \<and> m \<le> 12 then Some (int y, month_of_index (m - 1)) else None
         | _ \<Rightarrow> undefined s)
      else if length s = 10 \<and> s ! 4 = CHR ''-'' \<and> s ! 7 = CHR ''-'' then
        (case (parse_digits 0 (take 4 s), parse_digits 0 (take 2 (drop 5 s)),
               parse_digits 0 (drop 8 s)) of
           (Some y, Some m, Some d) \<Rightarrow>
             if 1 \<le> m \<and> m \<le> 12 \<and> 1 \<le> d \<and> d \<le> 31 then
               (if d \<le> days_in_month y m then Some (int y, month_of_index (m - 1))
                else undefined s)
             else None
         | _ \<Rightarrow> undefined s)
      else undefined s)"


subsection \<open>\<^verbatim>\<open>getSkillLevel\<close>\<close>

text \<open>
  Revision 1 (lines 26--34) returns \<^verbatim>\<open>levels[level] || 50\<close>, revision 2 (lines 715--718)
  returns \<^verbatim>\<open>levels[level] ?? 50\<close>. The result is a number, or whatever else the lookup
  found.
\<close>

definition levels :: "(string \<times> nat) list" where
  "levels = [(''Beginner'', 25), (''Intermediate'', 50), (''Advanced'', 75), (''Expert'', 100)]"

definition getSkillLevel_v1 :: "string \<Rightarrow> nat js_value" where
  "getSkillLevel_v1 lvl =
     (case js_get levels lvl of
        Value n \<Rightarrow> if n \<noteq> 0 then Value n else Value 50
      | Inherited k \<Rightarrow> Inherited k
      | Undefined \<Rightarrow> Value 50)"

definition getSkillLevel_v2 :: "string \<Rightarrow> nat js_value" where
  "getSkillLevel_v2 lvl =
     (case js_get levels lvl of
        Undefined \<Rightarrow> Value 50
      | v \<Rightarrow> v)"

text \<open>The bar's inline style: \<^verbatim>\<open>width: `${getSkillLevel(skill.level)}%`\<close>.\<close>

definition skill_bar_width :: "nat js_value \<Rightarrow> string" where
  "skill_bar_width v =
     (case v of
        Value n \<Rightarrow> show_nat n @ ''%''
      | Inherited k \<Rightarrow> inherited_text k @ ''%''
      | Undefined \<Rightarrow> ''undefined%'')"

subsection \<open>\<^verbatim>\<open>getColorValues\<close>\<close>

record ColorValues =
  primary :: string
  secondary :: string
  accent :: string

definition colorMap :: "(string \<times> ColorValues) list" where
  "colorMap =
     [(''slate'', \<lparr>primary = ''215, 25%, 27%'', secondary = ''215, 25%, 95%'', accent = ''215, 25%, 20%''\<rparr>),
      (''rose'', \<lparr>primary = ''11, 70%, 84%'', secondary = ''11, 70%, 95%'', accent = ''11, 70%, 74%''\<rparr>),
      (''emerald'', \<lparr>primary = ''164, 44%, 80%'', secondary = ''164, 44%, 95%'', accent = ''164, 44%, 70%''\<rparr>),
      (''amber'', \<lparr>primary = ''0, 0%, 49%'', secondary = ''0, 0%, 95%'', accent = ''0, 0%, 39%''\<rparr>),
      (''blue'', \<lparr>primary = ''217, 91%, 60%'', secondary = ''217, 91%, 95%'', accent = ''217, 91%, 50%''\<rparr>),
      (''orange'', \<lparr>primary = ''20, 90%, 48%'', secondary = ''20, 90%, 95%'', accent = ''20, 90%, 40%''\<rparr>)]"

text \<open>Revision 1 (lines 37--47): \<^verbatim>\<open>colorMap[colorName] || colorMap.slate\<close>.\<close>

definition getColorValues_v1 :: "string \<Rightarrow> ColorValues js_value" where
  "getColorValues_v1 colorName =
     (case js_get colorMap colorName of
        Value c \<Rightarrow> Value c
      | Inherited k \<Rightarrow> Inherited k
      | Undefined \<Rightarrow> js_get colorMap ''slate'')"

text \<open>
  Revision 2 (lines 720--735) picks the key with
  \<^verbatim>\<open>Object.prototype.hasOwnProperty.call(colorMap, colorName)\<close> before it reads the map.
\<close>

definition getColorValues_v2 :: "string \<Rightarrow> ColorValues js_value" where
  "getColorValues_v2 colorName =
     (let key = (if hasOwnProperty colorMap colorName then colorName else ''slate'')
      in js_get colorMap key)"

text \<open>
  Reading \<^verbatim>\<open>.primary\<close> (or another field) of the result: a member inherited from
  \<^verbatim>\<open>Object.prototype\<close> has no such property, so the read is \<^verbatim>\<open>undefined\<close>.
\<close>

definition color_field :: "(ColorValues \<Rightarrow> string) \<Rightarrow> ColorValues js_value \<Rightarrow> string option" where
  "color_field f v = (case v of Value c \<Rightarrow> Some (f c) | _ \<Rightarrow> None)"

definition string_of_field :: "string option \<Rightarrow> string" where
  "string_of_field v = (case v of Some s \<Rightarrow> s | None \<Rightarrow> ''undefined'')"

subsection \<open>\<^verbatim>\<open>getTemplateStyles\<close>\<close>

record TemplateStyles =
  sidebarBg :: string
  primaryColor :: string
  accentColor :: string
  borderColor :: string
  skillBar :: string
  headerStyle :: string

definition baseStyle :: string where
  "baseStyle = ''transition-all duration-300''"

definition dynamicStyles :: "string \<Rightarrow> TemplateStyles" where
  "dynamicStyles h =
     \<lparr>sidebarBg = ''cv-sidebar-bg'', primaryColor = ''cv-primary-text'',
      accentColor = ''cv-accent-bg'', borderColor = ''cv-primary-border'',
      skillBar = ''cv-skill-bar'', headerStyle = h\<rparr>"

definition getTemplateStyles :: "CVTemplate \<Rightarrow> TemplateStyles" where
  "getTemplateStyles template =
     (if template_id template = ''professional'' then
        dynamicStyles (baseStyle @ '' cv-header-professional'')
      else if template_id template = ''creative'' then
        (dynamicStyles (baseStyle @ '' cv-header-creative''))
          \<lparr>sidebarBg := ''cv-sidebar-creative'', skillBar := ''cv-skill-bar-creative''\<rparr>
      else if template_id template = ''executive'' then
        dynamicStyles (baseStyle @ '' cv-header-executive'')
      else if template_id template = ''minimal'' then
        dynamicStyles (baseStyle @ '' cv-header-minimal'')
      else dynamicStyles baseStyle)"


section \<open>The visual tree\<close>

text \<open>
  What a component returns: elements with a tag (an HTML tag or the name of an icon
  component), a class name, further attributes (inline style entries as \<open>style.\<close>\<open>name\<close>,
  the React key as \<open>key\<close>, an event handler by the text it logs) and children, and text
  leaves. A conditional child that is not rendered is absent from the list of children,
  and the children of a fragment stand in the list of their parent.
\<close>

datatype vnode = Text string | Element string string "(string \<times> string) list" "vnode list"

text \<open>The text leaves of a tree, in document order.\<close>

fun texts :: "vnode \<Rightarrow> string list" and texts_list :: "vnode list \<Rightarrow> string list" where
  "texts (Text s) = [s]"
| "texts (Element tg cls as cs) = texts_list cs"
| "texts_list [] = []"
| "texts_list (c # cs) = texts c @ texts_list cs"

text \<open>The text leaves that are children of an element with tag \<open>t\<close>, in document order.\<close>

fun child_texts :: "vnode list \<Rightarrow> string list" where
  "child_texts [] = []"
| "child_texts (Text s # cs) = s # child_texts cs"
| "child_texts (Element tg cls as ds # cs) = child_texts cs"

fun texts_of :: "string \<Rightarrow> vnode \<Rightarrow> string list"
  and texts_of_list :: "string \<Rightarrow> vnode list \<Rightarrow> string list" where
  "texts_of t (Text s) = []"
| "texts_of t (Element tg cls as cs) =
     (if tg = t then child_texts cs else []) @ texts_of_list t cs"
| "texts_of_list t [] = []"
| "texts_of_list t (c # cs) = texts_of t c @ texts_of_list t cs"

text \<open>
  A section is announced by its heading, an \<^verbatim>\<open>h3\<close> element: the tree has the section
  \<open>t\<close> when one of its \<^verbatim>\<open>h3\<close> elements has the text \<open>t\<close>.
\<close>

definition has_section :: "string \<Rightarrow> vnode \<Rightarrow> bool" where
  "has_section t v = List.member (texts_of ''h3'' v) t"

text \<open>
  A section of the document is an element whose first child is a heading, an \<^verbatim>\<open>h3\<close>
  element that holds one text, the title. What the section shows is the texts of the
  children that follow the heading. \<open>section_blocks\<close> lists the sections of a tree in
  document order, each with its title and its texts.
\<close>

definition heading_of :: "vnode \<Rightarrow> string option" where
  "heading_of v =
     (case v of
        Text s \<Rightarrow> None
      | Element tg cls as cs \<Rightarrow>
          if tg = ''h3'' then (case cs of [Text t] \<Rightarrow> Some t | _ \<Rightarrow> None) else None)"

definition block_of :: "vnode list \<Rightarrow> (string \<times> string list) list" where
  "block_of cs =
     (case cs of
        [] \<Rightarrow> []
      | c # rest \<Rightarrow> (case heading_of c of None \<Rightarrow> [] | Some t \<Rightarrow> [(t, texts_list rest)]))"

fun section_blocks :: "vnode \<Rightarrow> (string \<times> string list) list"
  and section_blocks_list :: "vnode list \<Rightarrow> (string \<times> string list) list" where
  "section_blocks (Text s) = []"
| "section_blocks (Element tg cls as cs) = block_of cs @ section_blocks_list cs"
| "section_blocks_list [] = []"
| "section_blocks_list (c # cs) = section_blocks c @ section_blocks_list cs"

text \<open>The texts of the sections of a tree that have the title \<open>h\<close>.\<close>

definition section_texts :: "string \<Rightarrow> vnode \<Rightarrow> string list list" where
  "section_texts h v = map snd (filter (\<lambda>b. fst b = h) (section_blocks v))"

text \<open>The nodes of a tree, in document order.\<close>

fun nodes :: "vnode \<Rightarrow> vnode list" and nodes_list :: "vnode list \<Rightarrow> vnode list" where
  "nodes (Text s) = [Text s]"
| "nodes (Element tg cls as cs) = Element tg cls as cs # nodes_list cs"
| "nodes_list [] = []"
| "nodes_list (c # cs) = nodes c @ nodes_list cs"


section \<open>CVPreview: the two layouts\<close>

datatype revision = Rev1 | Rev2

definition DEFAULT_AVATAR_URL :: string where
  "DEFAULT_AVATAR_URL =
     ''https://encrypted-tbn0.gstatic.com/images?q=tbn:ANd9GcSUqDBA8jnL_ezUoa8s_GgnboMkEeE4M7-LyA&s''"

record CVPreviewProps =
  data :: CVData
  template :: CVTemplate
  isPreview :: bool
  isPDF :: bool
  isFullPagePDF :: bool
  unbounded :: bool

definition getSkillLevel :: "revision \<Rightarrow> string \<Rightarrow> nat js_value" where
  "getSkillLevel rv lvl = (case rv of Rev1 \<Rightarrow> getSkillLevel_v1 lvl | Rev2 \<Rightarrow> getSkillLevel_v2 lvl)"

text \<open>
  Revision 1 gives every profile image an \<^verbatim>\<open>onError\<close> and an \<^verbatim>\<open>onLoad\<close> handler that log
  to the console (with a tag naming the place); revision 2 has none.
\<close>

definition img_handlers :: "revision \<Rightarrow> string \<Rightarrow> (string \<times> string) list" where
  "img_handlers rv place =
     (case rv of
        Rev1 \<Rightarrow> [(''onError'', ''Image failed to load'' @ place @ '':''),
                 (''onLoad'', ''Image loaded successfully'' @ place @ '':'')]
      | Rev2 \<Rightarrow> [])"

definition profile_img :: "revision \<Rightarrow> string \<Rightarrow> string \<Rightarrow> CVData \<Rightarrow> vnode" where
  "profile_img rv place cls d =
     Element ''img'' cls
       ([(''src'', js_or (photoUrl (personalInfo d)) DEFAULT_AVATAR_URL), (''alt'', ''Profile'')]
        @ img_handlers rv place) []"

subsection \<open>Two-column layout: the sidebar\<close>

definition sidebar_heading :: "TemplateStyles \<Rightarrow> string \<Rightarrow> vnode" where
  "sidebar_heading st title =
     Element ''h3''
       (''font-semibold '' @ primaryColor st @ '' mb-3 border-b '' @ borderColor st
        @ ''/30 pb-1 text-sm'') [] [Text title]"

definition sidebar_photo :: "revision \<Rightarrow> CVTemplate \<Rightarrow> CVData \<Rightarrow> TemplateStyles \<Rightarrow> vnode list" where
  "sidebar_photo rv t d st =
     (if hasPhoto t then
        [Element ''div'' ''text-center'' []
           [profile_img rv []
              (''w-24 h-24 rounded-full mx-auto object-cover border-4 '' @ borderColor st
               @ ''/20 shadow-md'') d]]
      else [])"

definition sidebar_contact_line :: "TemplateStyles \<Rightarrow> string \<Rightarrow> string \<Rightarrow> string \<Rightarrow> vnode list" where
  "sidebar_contact_line st icon span_cls v =
     (if v \<noteq> [] then
        [Element ''div'' ''flex items-center gap-2 text-muted-foreground'' []
           [Element icon (''w-3 h-3 flex-shrink-0 '' @ primaryColor st) [] [],
            Element ''span'' span_cls [] [Text v]]]
      else [])"

definition sidebar_contact :: "CVData \<Rightarrow> TemplateStyles \<Rightarrow> vnode" where
  "sidebar_contact d st =
     Element ''div'' [] []
       [sidebar_heading st ''Contact'',
        Element ''div'' ''space-y-2'' []
          (sidebar_contact_line st ''Mail'' ''text-xs break-all'' (email (personalInfo d))
           @ sidebar_contact_line st ''Phone'' ''text-xs'' (phone (personalInfo d))
           @ sidebar_contact_line st ''MapPin'' ''text-xs'' (address (personalInfo d))
           @ sidebar_contact_line st ''Globe'' ''text-xs break-all'' (website (personalInfo d)))]"

definition sidebar_skill :: "revision \<Rightarrow> TemplateStyles \<Rightarrow> Skill \<Rightarrow> vnode" where
  "sidebar_skill rv st skill =
     Element ''div'' [] [(''key'', skill_id skill)]
       [Element ''div'' ''flex justify-between items-center mb-1'' []
          [Element ''span'' ''text-xs font-medium'' [] [Text (skill_name skill)],
           Element ''span'' ''text-xs text-muted-foreground'' [] [Text (level skill)]],
        Element ''div'' ''w-full bg-muted/50 rounded-full h-2'' []
          [Element ''div'' (skillBar st @ '' h-2 rounded-full transition-all duration-500'')
             [(''style.width'', skill_bar_width (getSkillLevel rv (level skill)))] []]]"

definition sidebar_skills :: "revision \<Rightarrow> CVData \<Rightarrow> TemplateStyles \<Rightarrow> vnode list" where
  "sidebar_skills rv d st =
     (if length (skills d) > 0 then
        [Element ''div'' [] []
           [sidebar_heading st ''Skills'',
            Element ''div'' ''space-y-3'' [] (map (sidebar_skill rv st) (skills d))]]
      else [])"

definition sidebar_language :: "Language \<Rightarrow> vnode" where
  "sidebar_language lang =
     Element ''div'' ''flex items-center justify-between'' [(''key'', lang_id lang)]
       [Element ''span'' ''text-xs font-medium'' [] [Text (lang_name lang)],
        Element ''span'' ''text-xs text-muted-foreground'' [] [Text (proficiency lang)]]"

definition sidebar_languages :: "CVData \<Rightarrow> TemplateStyles \<Rightarrow> vnode list" where
  "sidebar_languages d st =
     (if length (languages d) > 0 then
        [Element ''div'' [] []
           [sidebar_heading st ''Languages'',
            Element ''div'' ''space-y-2'' [] (map sidebar_language (languages d))]]
      else [])"

definition sidebar_certification :: "js_host \<Rightarrow> TemplateStyles \<Rightarrow> Certification \<Rightarrow> vnode" where
  "sidebar_certification host st cert =
     Element ''div'' [] [(''key'', cert_id cert)]
       [Element ''div'' ''flex items-start gap-2'' []
          [Element ''Award'' (''w-3 h-3 flex-shrink-0 mt-0.5 '' @ primaryColor st) [] [],
           Element ''div'' [] []
             [Element ''div'' ''text-xs font-medium text-foreground'' [] [Text (cert_name cert)],
              Element ''div'' ''text-xs text-muted-foreground'' [] [Text (issuer cert)],
              Element ''div'' ''text-xs text-muted-foreground'' []
                [Text (formatDate host (cert_date cert))]]]]"

definition sidebar_certifications :: "js_host \<Rightarrow> CVData \<Rightarrow> TemplateStyles \<Rightarrow> vnode list" where
  "sidebar_certifications host d st =
     (if length (certifications d) > 0 then
        [Element ''div'' [] []
           [sidebar_heading st ''Certifications'',
            Element ''div'' ''space-y-3'' []
              (map (sidebar_certification host st) (certifications d))]]
      else [])"

definition sidebar_reference :: "TemplateStyles \<Rightarrow> Reference \<Rightarrow> vnode" where
  "sidebar_reference st ref =
     Element ''div'' [] [(''key'', ref_id ref)]
       [Element ''div'' ''flex items-start gap-2'' []
          [Element ''Users'' (''w-3 h-3 flex-shrink-0 mt-0.5 '' @ primaryColor st) [] [],
           Element ''div'' [] []
             [Element ''div'' ''text-xs font-medium text-foreground'' [] [Text (ref_name ref)],
              Element ''div'' ''text-xs text-muted-foreground'' [] [Text (organization ref)],
              Element ''div'' ''text-xs text-muted-foreground'' [] [Text (ref_email ref)],
              Element ''div'' ''text-xs text-muted-foreground'' [] [Text (ref_phone ref)]]]]"

definition sidebar_references :: "CVData \<Rightarrow> TemplateStyles \<Rightarrow> vnode list" where
  "sidebar_references d st =
     (if length (references d) > 0 then
        [Element ''div'' [] []
           [sidebar_heading st ''References'',
            Element ''div'' ''space-y-3'' [] (map (sidebar_reference st) (references d))]]
      else [])"

definition sidebar :: "revision \<Rightarrow> js_host \<Rightarrow> CVTemplate \<Rightarrow> CVData \<Rightarrow> TemplateStyles \<Rightarrow> vnode" where
  "sidebar rv host t d st =
     Element ''div'' (''w-1/3 '' @ sidebarBg st @ '' p-6 space-y-6'') []
       (sidebar_photo rv t d st
        @ [sidebar_contact d st]
        @ sidebar_skills rv d st
        @ sidebar_languages d st
        @ sidebar_certifications host d st
        @ sidebar_references d st)"

subsection \<open>Two-column layout: the content column\<close>

definition two_column_header :: "CVTemplate \<Rightarrow> CVData \<Rightarrow> TemplateStyles \<Rightarrow> vnode" where
  "two_column_header t d st =
     Element ''div''
       (if template_id t = ''minimal'' then headerStyle st @ '' pb-4''
        else ''border-b border-border pb-4'') []
       ((if template_id t \<noteq> ''minimal'' then
           [Element ''div'' (headerStyle st @ '' text-white p-4 rounded-lg mb-4 shadow-md'') []
              [Element ''h1'' ''text-2xl font-bold mb-1'' []
                 [Text (js_or (fullName (personalInfo d)) ''Your Name'')],
               Element ''p'' ''text-lg opacity-90'' []
                 [Text (js_or (jobTitle (personalInfo d)) ''Your Job Title'')]]]
         else [])
        @ (if template_id t = ''minimal'' then
             [Element ''h1'' (''text-2xl font-bold '' @ primaryColor st @ '' mb-1'') []
                [Text (js_or (fullName (personalInfo d)) ''Your Name'')],
              Element ''p'' ''text-lg text-muted-foreground'' []
                [Text (js_or (jobTitle (personalInfo d)) ''Your Job Title'')]]
           else []))"

definition two_column_summary :: "CVData \<Rightarrow> TemplateStyles \<Rightarrow> vnode list" where
  "two_column_summary d st =
     (if summary d \<noteq> [] then
        [Element ''div'' [] []
           [Element ''h3'' (''font-semibold '' @ primaryColor st @ '' mb-3 text-lg'') []
              [Text ''Professional Summary''],
            Element ''p'' ''text-muted-foreground leading-relaxed'' [] [Text (summary d)]]]
      else [])"

text \<open>The accent bar and the indentation that only the creative template has.\<close>

definition accent_bar :: "CVTemplate \<Rightarrow> TemplateStyles \<Rightarrow> vnode list" where
  "accent_bar t st =
     (if template_id t = ''creative'' then
        [Element ''div'' (''absolute left-0 top-0 w-1 h-full '' @ accentColor st @ '' rounded-full'')
           [] []]
      else [])"

definition entry_indent :: "CVTemplate \<Rightarrow> string" where
  "entry_indent t = (if template_id t = ''creative'' then ''pl-4'' else [])"

text \<open>
  \<^verbatim>\<open>exp.responsibilities.filter(r => r.trim()).map((resp, index) => <li key={index} ...>)\<close>
\<close>

definition responsibility_items :: "string list \<Rightarrow> vnode list" where
  "responsibility_items rs =
     map (\<lambda>(index, resp). Element ''li'' ''text-sm leading-relaxed'' [(''key'', show_nat index)]
                              [Text resp])
       (enumerate 0 (filter (\<lambda>r. js_trim r \<noteq> []) rs))"

text \<open>
  The date line of a work-experience entry:
  \<^verbatim>\<open>{formatDate(exp.startDate)} - {exp.current ? "Present" : formatDate(exp.endDate)}\<close>
\<close>

definition work_dates :: "js_host \<Rightarrow> WorkExperience \<Rightarrow> vnode list" where
  "work_dates host we =
     [Text (formatDate host (exp_startDate we)), Text '' - '',
      Text (if current we then ''Present'' else formatDate host (exp_endDate we))]"

definition two_column_work_entry :: "js_host \<Rightarrow> CVTemplate \<Rightarrow> TemplateStyles \<Rightarrow> WorkExperience \<Rightarrow> vnode" where
  "two_column_work_entry host t st we =
     Element ''div'' ''relative'' [(''key'', exp_id we)]
       (accent_bar t st
        @ [Element ''div'' (entry_indent t) []
             ([Element ''div'' ''flex justify-between items-start mb-2'' []
                 [Element ''div'' [] []
                    [Element ''h4'' ''font-semibold text-foreground text-base'' []
                       [Text (exp_jobTitle we)],
                     Element ''p'' (''font-medium '' @ primaryColor st) [] [Text (company we)]],
                  Element ''div'' ''text-right text-xs text-muted-foreground'' []
                    [Element ''div'' ''flex items-center gap-1'' []
                       (Element ''Calendar'' ''w-3 h-3'' [] [] # work_dates host we)]]]
              @ (if length (responsibilities we) > 0 then
                   [Element ''ul'' ''list-disc list-inside text-muted-foreground space-y-1 ml-4'' []
                      (responsibility_items (responsibilities we))]
                 else []))])"

definition two_column_work :: "js_host \<Rightarrow> CVTemplate \<Rightarrow> CVData \<Rightarrow> TemplateStyles \<Rightarrow> vnode list" where
  "two_column_work host t d st =
     (if length (workExperience d) > 0 then
        [Element ''div'' [] []
           [Element ''h3'' (''font-semibold '' @ primaryColor st @ '' mb-4 text-lg'') []
              [Text ''Work Experience''],
            Element ''div'' ''space-y-6'' []
              (map (two_column_work_entry host t st) (workExperience d))]]
      else [])"

text \<open>\<^verbatim>\<open>{edu.grade && <div ...>Grade: {edu.grade}</div>}\<close>\<close>

definition grade_line :: "Education \<Rightarrow> vnode list" where
  "grade_line edu =
     (case grade edu of
        None \<Rightarrow> []
      | Some g \<Rightarrow>
          if g \<noteq> [] then
            [Element ''div'' ''text-sm text-muted-foreground'' [] [Text ''Grade: '', Text g]]
          else [])"

definition two_column_education_entry :: "js_host \<Rightarrow> CVTemplate \<Rightarrow> TemplateStyles \<Rightarrow> Education \<Rightarrow> vnode" where
  "two_column_education_entry host t st edu =
     Element ''div'' ''relative'' [(''key'', edu_id edu)]
       (accent_bar t st
        @ [Element ''div'' (entry_indent t) []
             ([Element ''div'' ''flex justify-between items-start mb-2'' []
                 [Element ''div'' [] []
                    [Element ''h4'' ''font-semibold text-foreground text-base'' []
                       [Text (degree edu)],
                     Element ''p'' (''font-medium '' @ primaryColor st) []
                       [Text (fieldOfStudy edu)],
                     Element ''p'' ''text-sm text-muted-foreground'' [] [Text (institution edu)]],
                  Element ''div'' ''text-right text-xs text-muted-foreground'' []
                    [Element ''div'' ''flex items-center gap-1'' []
                       [Element ''Calendar'' ''w-3 h-3'' [] [],
                        Text (formatDate host (edu_startDate edu)), Text '' - '',
                        Text (formatDate host (edu_endDate edu))]]]]
              @ grade_line edu)])"

definition two_column_education :: "js_host \<Rightarrow> CVTemplate \<Rightarrow> CVData \<Rightarrow> TemplateStyles \<Rightarrow> vnode list" where
  "two_column_education host t d st =
     (if length (education d) > 0 then
        [Element ''div'' [] []
           [Element ''h3'' (''font-semibold '' @ primaryColor st @ '' mb-4 text-lg'') []
              [Text ''Education''],
            Element ''div'' ''space-y-6'' []
              (map (two_column_education_entry host t st) (education d))]]
      else [])"

definition content_column :: "js_host \<Rightarrow> CVTemplate \<Rightarrow> CVData \<Rightarrow> TemplateStyles \<Rightarrow> vnode" where
  "content_column host t d st =
     Element ''div'' ''flex-1 p-6 space-y-6'' []
       ([two_column_header t d st]
        @ two_column_summary d st
        @ two_column_work host t d st
        @ two_column_education host t d st)"

subsection \<open>Single-column layout\<close>

definition header_contact_line :: "string \<Rightarrow> string \<Rightarrow> vnode list" where
  "header_contact_line icon v =
     (if v \<noteq> [] then
        [Element ''div'' ''flex items-center gap-1'' [] [Element icon ''w-4 h-4'' [] [], Text v]]
      else [])"

definition header_contact :: "string \<Rightarrow> CVData \<Rightarrow> vnode" where
  "header_contact cls d =
     Element ''div'' cls []
       (header_contact_line ''Mail'' (email (personalInfo d))
        @ header_contact_line ''Phone'' (phone (personalInfo d))
        @ header_contact_line ''MapPin'' (address (personalInfo d)))"

definition single_column_header :: "revision \<Rightarrow> CVTemplate \<Rightarrow> CVData \<Rightarrow> TemplateStyles \<Rightarrow> vnode" where
  "single_column_header rv t d st =
     Element ''div''
       (''text-center '' @ (if template_id t = ''minimal'' then headerStyle st @ '' pb-6''
                            else ''border-b border-border pb-6'')) []
       ((if template_id t \<noteq> ''minimal'' then
           [Element ''div'' (headerStyle st @ '' text-white p-6 rounded-lg mb-6 shadow-md'') []
              ((if hasPhoto t then
                  [profile_img rv '' (single-column)''
                     ''w-24 h-24 rounded-full mx-auto object-cover border-4 border-white/20 mb-4 shadow-lg''
                     d]
                else [])
               @ [Element ''h1'' ''text-3xl font-bold mb-2'' []
                    [Text (js_or (fullName (personalInfo d)) ''Your Name'')],
                  Element ''p'' ''text-xl opacity-90 mb-4'' []
                    [Text (js_or (jobTitle (personalInfo d)) ''Your Job Title'')],
                  header_contact ''flex flex-wrap justify-center gap-4 text-sm text-white/80'' d])]
         else [])
        @ (if template_id t = ''minimal'' then
             (if hasPhoto t then
                [profile_img rv '' (minimal)''
                   (''w-24 h-24 rounded-full mx-auto object-cover border-4 '' @ borderColor st
                    @ ''/20 mb-4 shadow-md'') d]
              else [])
             @ [Element ''h1'' (''text-3xl font-bold '' @ primaryColor st @ '' mb-2'') []
                  [Text (js_or (fullName (personalInfo d)) ''Your Name'')],
                Element ''p'' ''text-xl text-muted-foreground mb-4'' []
                  [Text (js_or (jobTitle (personalInfo d)) ''Your Job Title'')],
                header_contact ''flex flex-wrap justify-center gap-4 text-sm text-muted-foreground'' d]
           else []))"

definition section_heading :: "TemplateStyles \<Rightarrow> string \<Rightarrow> string \<Rightarrow> vnode" where
  "section_heading st margin title =
     Element ''h3''
       (''font-semibold '' @ primaryColor st @ '' '' @ margin @ '' border-b '' @ borderColor st
        @ ''/30 pb-1 text-lg'') [] [Text title]"

definition single_column_summary :: "CVData \<Rightarrow> TemplateStyles \<Rightarrow> vnode list" where
  "single_column_summary d st =
     (if summary d \<noteq> [] then
        [Element ''div'' [] []
           [section_heading st ''mb-3'' ''Professional Summary'',
            Element ''p'' ''text-muted-foreground leading-relaxed'' [] [Text (summary d)]]]
      else [])"

definition single_column_work_entry :: "js_host \<Rightarrow> CVTemplate \<Rightarrow> TemplateStyles \<Rightarrow> WorkExperience \<Rightarrow> vnode" where
  "single_column_work_entry host t st we =
     Element ''div'' ''relative'' [(''key'', exp_id we)]
       (accent_bar t st
        @ [Element ''div'' (entry_indent t) []
             ([Element ''div'' ''flex justify-between items-start mb-2'' []
                 [Element ''div'' [] []
                    [Element ''h4'' ''font-semibold text-foreground text-base'' []
                       [Text (exp_jobTitle we)],
                     Element ''p'' (''font-medium '' @ primaryColor st) [] [Text (company we)]],
                  Element ''div'' ''text-right text-sm text-muted-foreground'' []
                    [Element ''div'' ''flex items-center gap-1'' []
                       (Element ''Calendar'' ''w-4 h-4'' [] [] # work_dates host we)]]]
              @ (if length (responsibilities we) > 0 then
                   [Element ''ul'' ''list-disc list-inside text-muted-foreground space-y-1'' []
                      (responsibility_items (responsibilities we))]
                 else []))])"

definition single_column_work :: "js_host \<Rightarrow> CVTemplate \<Rightarrow> CVData \<Rightarrow> TemplateStyles \<Rightarrow> vnode list" where
  "single_column_work host t d st =
     (if length (workExperience d) > 0 then
        [Element ''div'' [] []
           [section_heading st ''mb-4'' ''Work Experience'',
            Element ''div'' ''space-y-6'' []
              (map (single_column_work_entry host t st) (workExperience d))]]
      else [])"

definition single_column_education_entry :: "revision \<Rightarrow> js_host \<Rightarrow> TemplateStyles \<Rightarrow> Education \<Rightarrow> vnode" where
  "single_column_education_entry rv host st edu =
     Element ''div'' [] [(''key'', edu_id edu)]
       ([Element ''h4''
           (case rv of Rev1 \<Rightarrow> ''font-medium text-foreground''
                     | Rev2 \<Rightarrow> ''text-foreground font-medium'') []
           [Text (degree edu)],
         Element ''p'' ''text-muted-foreground'' [] [Text (fieldOfStudy edu)],
         Element ''p'' (''font-medium '' @ primaryColor st) [] [Text (institution edu)],
         Element ''div'' ''text-sm text-muted-foreground'' []
           [Text (formatDate host (edu_startDate edu)), Text '' - '',
            Text (formatDate host (edu_endDate edu))]]
        @ grade_line edu)"

definition single_column_education :: "revision \<Rightarrow> js_host \<Rightarrow> CVData \<Rightarrow> TemplateStyles \<Rightarrow> vnode list" where
  "single_column_education rv host d st =
     (if length (education d) > 0 then
        [Element ''div'' [] []
           [section_heading st ''mb-4'' ''Education'',
            Element ''div'' ''space-y-4'' []
              (map (single_column_education_entry rv host st) (education d))]]
      else [])"

definition single_column_skill :: "revision \<Rightarrow> TemplateStyles \<Rightarrow> Skill \<Rightarrow> vnode" where
  "single_column_skill rv st skill =
     Element ''div'' [] [(''key'', skill_id skill)]
       [Element ''div'' ''flex justify-between items-center mb-1'' []
          [Element ''span'' ''text-sm font-medium'' [] [Text (skill_name skill)],
           Element ''span'' ''text-sm text-muted-foreground'' [] [Text (level skill)]],
        Element ''div'' ''w-full bg-muted/50 rounded-full h-2'' []
          [Element ''div'' (skillBar st @ '' h-2 rounded-full transition-all duration-500'')
             [(''style.width'', skill_bar_width (getSkillLevel rv (level skill)))] []]]"

definition single_column_skills :: "revision \<Rightarrow> CVData \<Rightarrow> TemplateStyles \<Rightarrow> vnode list" where
  "single_column_skills rv d st =
     (if length (skills d) > 0 then
        [Element ''div'' [] []
           [section_heading st ''mb-4'' ''Skills'',
            Element ''div'' ''space-y-3'' [] (map (single_column_skill rv st) (skills d))]]
      else [])"

definition single_column_language :: "Language \<Rightarrow> vnode" where
  "single_column_language lang =
     Element ''div'' ''flex items-center justify-between'' [(''key'', lang_id lang)]
       [Element ''span'' ''text-sm font-medium'' [] [Text (lang_name lang)],
        Element ''span'' ''text-sm text-muted-foreground'' [] [Text (proficiency lang)]]"

definition single_column_languages :: "CVData \<Rightarrow> TemplateStyles \<Rightarrow> vnode list" where
  "single_column_languages d st =
     (if length (languages d) > 0 then
        [Element ''div'' [] []
           [section_heading st ''mb-4'' ''Languages'',
            Element ''div'' ''space-y-2'' [] (map single_column_language (languages d))]]
      else [])"

definition single_column_certification :: "js_host \<Rightarrow> TemplateStyles \<Rightarrow> Certification \<Rightarrow> vnode" where
  "single_column_certification host st cert =
     Element ''div'' [] [(''key'', cert_id cert)]
       [Element ''div'' ''flex items-start gap-2'' []
          [Element ''Award'' (''w-4 h-4 flex-shrink-0 mt-0.5 '' @ primaryColor st) [] [],
           Element ''div'' [] []
             [Element ''div'' ''text-sm font-medium text-foreground'' [] [Text (cert_name cert)],
              Element ''div'' ''text-sm text-muted-foreground'' [] [Text (issuer cert)],
              Element ''div'' ''text-sm text-muted-foreground'' []
                [Text (formatDate host (cert_date cert))]]]]"

definition single_column_certifications :: "js_host \<Rightarrow> CVData \<Rightarrow> TemplateStyles \<Rightarrow> vnode list" where
  "single_column_certifications host d st =
     (if length (certifications d) > 0 then
        [Element ''div'' [] []
           [section_heading st ''mb-4'' ''Certifications'',
            Element ''div'' ''space-y-4'' []
              (map (single_column_certification host st) (certifications d))]]
      else [])"

definition single_column_reference :: "TemplateStyles \<Rightarrow> Reference \<Rightarrow> vnode" where
  "single_column_reference st ref =
     Element ''div'' [] [(''key'', ref_id ref)]
       [Element ''div'' ''flex items-start gap-2'' []
          [Element ''Users'' (''w-4 h-4 flex-shrink-0 mt-0.5 '' @ primaryColor st) [] [],
           Element ''div'' [] []
             [Element ''div'' ''text-sm font-medium text-foreground'' [] [Text (ref_name ref)],
              Element ''div'' ''text-sm text-muted-foreground'' [] [Text (organization ref)],
              Element ''div'' ''text-sm text-muted-foreground'' [] [Text (ref_email ref)],
              Element ''div'' ''text-sm text-muted-foreground'' [] [Text (ref_phone ref)]]]]"

definition single_column_references :: "CVData \<Rightarrow> TemplateStyles \<Rightarrow> vnode list" where
  "single_column_references d st =
     (if length (references d) > 0 then
        [Element ''div'' [] []
           [section_heading st ''mb-4'' ''References'',
            Element ''div'' ''space-y-4'' [] (map (single_column_reference st) (references d))]]
      else [])"

text \<open>The children of the single-column root after its style sheet.\<close>

definition single_column_body :: "revision \<Rightarrow> js_host \<Rightarrow> CVTemplate \<Rightarrow> CVData \<Rightarrow> TemplateStyles \<Rightarrow> vnode list" where
  "single_column_body rv host t d st =
     [single_column_header rv t d st]
     @ single_column_summary d st
     @ single_column_work host t d st
     @ [Element ''div'' ''grid md:grid-cols-2 gap-6'' []
          (single_column_education rv host d st @ single_column_skills rv d st),
        Element ''div'' ''grid md:grid-cols-2 gap-6'' []
          (single_column_languages d st
           @ single_column_certifications host d st
           @ single_column_references d st)]"

subsection \<open>The component\<close>

text \<open>
  The style sheet that both layouts embed. The rules are the lines of the template
  literal; its indentation is left out.
\<close>

definition style_rules :: "string list" where
  "style_rules =
     [''.cv-sidebar-bg { background-color: hsl(var(--template-secondary)); }'',
      ''.cv-sidebar-creative { background-color: hsl(var(--template-secondary)); }'',
      ''.cv-primary-text { color: hsl(var(--template-primary)); }'',
      ''.cv-accent-bg { background-color: hsl(var(--template-primary)); }'',
      ''.cv-primary-border { border-color: hsl(var(--template-primary)); }'',
      ''.cv-skill-bar { background-color: hsl(var(--template-primary)); }'',
      ''.cv-skill-bar-creative { background-color: hsl(var(--template-primary)); }'',
      ''.cv-header-professional { background: linear-gradient(to right, hsl(var(--template-primary)), hsl(var(--template-accent))); }'',
      ''.cv-header-creative { background-color: hsl(var(--template-primary)); }'',
      ''.cv-header-executive { background-color: hsl(var(--template-primary)); }'',
      ''.cv-header-minimal { border-bottom: 2px solid hsl(var(--template-primary)); }'']"

definition css_lines :: "string list \<Rightarrow> string" where
  "css_lines rules = concat (map (\<lambda>r. r @ [CHR 0x0A]) rules)"

text \<open>Revision 1 declares the three variables in the style sheet, on \<^verbatim>\<open>.cv-template\<close>.\<close>

definition template_vars_rule :: "CVTemplate \<Rightarrow> string" where
  "template_vars_rule t =
     ''.cv-template { --template-primary: ''
     @ string_of_field (color_field primary (getColorValues_v1 (color t)))
     @ ''; --template-secondary: ''
     @ string_of_field (color_field secondary (getColorValues_v1 (color t)))
     @ ''; --template-accent: ''
     @ string_of_field (color_field accent (getColorValues_v1 (color t)))
     @ ''; }''"

definition outerBase :: "CVPreviewProps \<Rightarrow> string" where
  "outerBase p = (if isPDF p then ''bg-white'' else ''bg-background'')"

definition chrome :: "CVPreviewProps \<Rightarrow> string" where
  "chrome p = (if isPDF p then [] else ''border border-border rounded-lg shadow-card'')"

definition overflowClip :: "CVPreviewProps \<Rightarrow> string" where
  "overflowClip p = (if unbounded p then [] else ''overflow-hidden'')"

definition textSize :: "CVPreviewProps \<Rightarrow> string" where
  "textSize p = (if isPreview p then ''text-xs'' else ''text-sm'')"

definition unboundedStyle :: "CVPreviewProps \<Rightarrow> (string \<times> string) list" where
  "unboundedStyle p =
     (if unbounded p then
        (if isPDF p then [(''style.width'', ''210mm''), (''style.minHeight'', ''297mm'')]
         else [(''style.width'', ''794px''), (''style.minHeight'', ''1123px'')])
      else [])"

text \<open>
  Revision 2 binds the variables on the root element (lines 737--742). An inline style
  entry whose value is \<^verbatim>\<open>undefined\<close> is not rendered.
\<close>

definition style_entry :: "string \<Rightarrow> string option \<Rightarrow> (string \<times> string) list" where
  "style_entry n v = (case v of Some x \<Rightarrow> [(''style.'' @ n, x)] | None \<Rightarrow> [])"

definition colorVars :: "CVTemplate \<Rightarrow> (string \<times> string) list" where
  "colorVars t =
     style_entry ''--template-primary'' (color_field primary (getColorValues_v2 (color t)))
     @ style_entry ''--template-secondary'' (color_field secondary (getColorValues_v2 (color t)))
     @ style_entry ''--template-accent'' (color_field accent (getColorValues_v2 (color t)))"

text \<open>Revision 1 (lines 16--683).\<close>

definition CVPreview_v1 :: "js_host \<Rightarrow> CVPreviewProps \<Rightarrow> vnode" where
  "CVPreview_v1 host p =
     (let t = template p; d = data p; st = getTemplateStyles t;
          sheet = Element ''style'' [] [] [Text (css_lines (template_vars_rule t # style_rules))]
      in if columns t = 2 then
           Element ''div''
             (''cv-a4 '' @ outerBase p @ '' '' @ chrome p @ '' overflow-hidden '' @ textSize p
              @ '' cv-template'') []
             [sheet,
              Element ''div'' ''flex h-full'' []
                [sidebar Rev1 host t d st, content_column host t d st]]
         else
           Element ''div''
             (''cv-a4 '' @ outerBase p @ '' '' @ chrome p @ '' p-6 '' @ textSize p
              @ '' space-y-6 cv-template'') []
             (sheet # single_column_body Rev1 host t d st))"

text \<open>Revision 2 (lines 701--1220).\<close>

definition CVPreview_v2 :: "js_host \<Rightarrow> CVPreviewProps \<Rightarrow> vnode" where
  "CVPreview_v2 host p =
     (let t = template p; d = data p; st = getTemplateStyles t;
          sheet = Element ''style'' [] [] [Text (css_lines style_rules)];
          cvContent =
            (if columns t = 2 then
               Element ''div''
                 ((if unbounded p then [] else ''cv-a4'') @ '' '' @ outerBase p @ '' '' @ chrome p
                  @ '' '' @ overflowClip p @ '' '' @ textSize p)
                 (unboundedStyle p @ colorVars t)
                 [sheet,
                  Element ''div'' ''flex h-full'' []
                    [sidebar Rev2 host t d st, content_column host t d st]]
             else
               Element ''div''
                 ((if unbounded p then [] else ''cv-a4'') @ '' '' @ outerBase p @ '' '' @ chrome p
                  @ '' '' @ overflowClip p @ '' p-6 '' @ textSize p @ '' space-y-6'')
                 (unboundedStyle p @ colorVars t)
                 (sheet # single_column_body Rev2 host t d st))
      in if isFullPagePDF p then Element ''div'' ''cv-page'' [] [cvContent] else cvContent)"

subsection \<open>State outside the component\<close>

text \<open>
  The custom properties of \<^verbatim>\<open>document.documentElement.style\<close>: the one piece of state
  outside its own output that either revision touches. \<^verbatim>\<open>setProperty\<close> with an empty
  value removes the property; \<^verbatim>\<open>undefined\<close> is written as the text \<^verbatim>\<open>undefined\<close>.
\<close>

type_synonym root_style = "string \<Rightarrow> string option"

definition setProperty :: "string \<Rightarrow> string \<Rightarrow> root_style \<Rightarrow> root_style" where
  "setProperty n v rs = (if v = [] then rs(n := None) else rs(n \<mapsto> v))"

definition removeProperty :: "string \<Rightarrow> root_style \<Rightarrow> root_style" where
  "removeProperty n rs = rs(n := None)"

text \<open>
  The effect of revision 1 (lines 50--65), run after the component has rendered and again
  whenever \<^verbatim>\<open>template.color\<close> changes, and the clean-up that it returns.
\<close>

definition CVPreview_v1_effect :: "CVTemplate \<Rightarrow> root_style \<Rightarrow> root_style" where
  "CVPreview_v1_effect t rs =
     (let colors = getColorValues_v1 (color t) in
      setProperty ''--template-accent'' (string_of_field (color_field accent colors))
        (setProperty ''--template-secondary'' (string_of_field (color_field secondary colors))
           (setProperty ''--template-primary'' (string_of_field (color_field primary colors)) rs)))"

definition CVPreview_v1_cleanup :: "root_style \<Rightarrow> root_style" where
  "CVPreview_v1_cleanup rs =
     removeProperty ''--template-accent''
       (removeProperty ''--template-secondary'' (removeProperty ''--template-primary'' rs))"

text \<open>
  Rendering a component and committing it: the tree it returns and what has become of the
  document root. Revision 2 has no effect, so the root is as it was.
\<close>

definition mount_v1 :: "js_host \<Rightarrow> CVPreviewProps \<Rightarrow> root_style \<Rightarrow> vnode \<times> root_style" where
  "mount_v1 host p rs = (CVPreview_v1 host p, CVPreview_v1_effect (template p) rs)"

definition mount_v2 :: "js_host \<Rightarrow> CVPreviewProps \<Rightarrow> root_style \<Rightarrow> vnode \<times> root_style" where
  "mount_v2 host p rs = (CVPreview_v2 host p, rs)"

text \<open>The four templates of CVBuilder.tsx, and props for evaluating the component.\<close>

definition templates :: "CVTemplate list" where
  "templates =
     [\<lparr>template_id = ''professional'', template_name = ''Professional Modern'',
       template_description = ''Clean and modern design perfect for corporate roles'',
       features = [''Two Column'', ''Photo Optional'', ''ATS Friendly''],
       hasPhoto = True, columns = 2, color = ''blue''\<rparr>,
      \<lparr>template_id = ''creative'', template_name = ''Creative Portfolio'',
       template_description = ''Stand out with this creative and colorful template'',
       features = [''Single Column'', ''Photo Required'', ''Creative Design''],
       hasPhoto = True, columns = 1, color = ''purple''\<rparr>,
      \<lparr>template_id = ''executive'', template_name = ''Executive Elite'',
       template_description = ''Sophisticated design for senior-level positions'',
       features = [''Two Column'', ''Photo Optional'', ''Elegant''],
       hasPhoto = True, columns = 2, color = ''green''\<rparr>,
      \<lparr>template_id = ''minimal'', template_name = ''Minimalist Clean'',
       template_description = ''Simple and clean design that focuses on content'',
       features = [''Single Column'', ''No Photo'', ''Minimal''],
       hasPhoto = False, columns = 1, color = ''gray''\<rparr>]"

definition professional :: CVTemplate where
  "professional = templates ! 0"

definition creative :: CVTemplate where
  "creative = templates ! 1"

definition preview_props :: "CVData \<Rightarrow> CVTemplate \<Rightarrow> CVPreviewProps" where
  "preview_props d t =
     \<lparr>data = d, template = t, isPreview = True, isPDF = False, isFullPagePDF = False,
      unbounded = False\<rparr>"


section \<open>CVProgress: \<^verbatim>\<open>calculateCompleteness\<close>\<close>

text \<open>
  The completeness flags are the values of \<^verbatim>\<open>&&\<close> chains over strings and booleans:
  \<^verbatim>\<open>a && b\<close> is \<open>a\<close> when \<open>a\<close> is falsy and \<open>b\<close> otherwise, so a flag is a string or a
  boolean. The consumers (\<^verbatim>\<open>filter\<close>, the conditional in the markup) read its truthiness.
\<close>

datatype js_flag = Str string | Bool bool

fun truthy :: "js_flag \<Rightarrow> bool" where
  "truthy (Str s) = (s \<noteq> [])"
| "truthy (Bool b) = b"

definition js_and :: "js_flag \<Rightarrow> js_flag \<Rightarrow> js_flag" where
  "js_and a b = (if truthy a then b else a)"

record ProgressSection =
  name :: string
  complete :: js_flag

record Completeness =
  percentage :: int
  sections :: "ProgressSection list"

text \<open>\<^verbatim>\<open>Math.round\<close>: the nearest integer, a half rounded up.\<close>

definition Math_round :: "rat \<Rightarrow> int" where
  "Math_round x = \<lfloor>x + 1 / 2\<rfloor>"

definition calculateCompleteness :: "CVData \<Rightarrow> Completeness" where
  "calculateCompleteness d =
     (let totalSections = (5 :: nat);
          personalComplete =
            js_and (js_and (Str (fullName (personalInfo d))) (Str (email (personalInfo d))))
              (Str (phone (personalInfo d)));
          summaryComplete = js_and (Str (summary d)) (Bool (length (summary d) > 20));
          workComplete =
            js_and (Bool (length (workExperience d) > 0))
              (Bool (list_ex
                 (\<lambda>we. truthy (js_and (js_and (Str (exp_jobTitle we)) (Str (company we)))
                                  (Str (exp_startDate we))))
                 (workExperience d)));
          educationComplete =
            js_and (Bool (length (education d) > 0))
              (Bool (list_ex (\<lambda>edu. truthy (js_and (Str (degree edu)) (Str (institution edu))))
                 (education d)));
          skillsComplete =
            js_and (Bool (length (skills d) > 0))
              (Bool (list_ex (\<lambda>skill. truthy (Str (skill_name skill))) (skills d)));
          secs =
            [\<lparr>name = ''Personal Information'', complete = personalComplete\<rparr>,
             \<lparr>name = ''Summary'', complete = summaryComplete\<rparr>,
             \<lparr>name = ''Work Experience'', complete = workComplete\<rparr>,
             \<lparr>name = ''Education'', complete = educationComplete\<rparr>,
             \<lparr>name = ''Skills'', complete = skillsComplete\<rparr>];
          completedSections = length (filter (\<lambda>section. truthy (complete section)) secs)
      in \<lparr>percentage = Math_round ((of_nat completedSections / of_nat totalSections) * 100),
          sections = secs\<rparr>)"


section \<open>CVBuilder\<close>

text \<open>
  The state that \<^verbatim>\<open>calculateScale\<close> and \<^verbatim>\<open>handleDownloadPDF\<close> read and write: the React
  state of the page, its refs, and what the page has sent to its collaborators (the
  notifications, the console, the calls of the rasterizer). A ref whose \<^verbatim>\<open>current\<close> is
  \<^verbatim>\<open>null\<close> is \<open>None\<close>; the preview container is known by its \<^verbatim>\<open>clientWidth\<close>, the export
  node by its images.
\<close>

record Toast =
  title :: string
  description :: string
  variant :: "string option"

record Img =
  img_complete :: bool
  img_settles :: bool

record ExportNode =
  imgs :: "Img list"

record Html2PdfOptions =
  margin :: nat
  filename :: string
  image_type :: string
  image_quality :: rat
  html2canvas_scale :: rat
  html2canvas_useCORS :: bool
  jsPDF_unit :: string
  jsPDF_format :: "nat \<times> nat"
  jsPDF_orientation :: string
  pagebreak_mode :: "string list option"

record BuilderState =
  selectedTemplate :: "string option"
  previewMode :: bool
  previewScale :: rat
  previewContainerRef :: "nat option"
  exportRef :: "ExportNode option"
  toasts :: "Toast list"
  console_errors :: "(string \<times> string) list"
  html2pdf_calls :: "(Html2PdfOptions \<times> ExportNode) list"

subsection \<open>\<^verbatim>\<open>calculateScale\<close>\<close>

text \<open>
  The same function in all four revisions of the page (CVBuilder.tsx lines 96--109).
  JavaScript numbers are modelled by rationals: the quotient is exact here.
\<close>

definition calculateScale :: "BuilderState \<Rightarrow> BuilderState" where
  "calculateScale s =
     (case previewContainerRef s of
        None \<Rightarrow> s
      | Some containerWidth \<Rightarrow>
          if previewMode s then s
          else
            (let cvWidth = (794 :: rat);
                 scale = min (of_nat containerWidth / cvWidth) 1
             in s\<lparr>previewScale := scale\<rparr>))"

subsection \<open>\<^verbatim>\<open>handleDownloadPDF\<close>\<close>

text \<open>
  An awaited promise is fulfilled, is rejected with an error, or never settles. A step of
  an asynchronous function completes, throws, or never completes, and leaves a state.
\<close>

datatype settlement = Fulfilled | Rejected string | Pending

datatype outcome = Done | Throws string | Never

type_synonym async = "BuilderState \<Rightarrow> outcome \<times> BuilderState"

definition skip :: async where
  "skip s = (Done, s)"

definition await :: "settlement \<Rightarrow> async" where
  "await p s =
     (case p of Fulfilled \<Rightarrow> (Done, s) | Rejected e \<Rightarrow> (Throws e, s) | Pending \<Rightarrow> (Never, s))"

text \<open>\<^verbatim>\<open>a; b\<close>: the second step runs when the first has completed.\<close>

definition seq :: "async \<Rightarrow> async \<Rightarrow> async" where
  "seq a b s = (case a s of (Done, s') \<Rightarrow> b s' | (r, s') \<Rightarrow> (r, s'))"

text \<open>\<^verbatim>\<open>try { body } catch (error) { handler }\<close>\<close>

definition try_catch :: "async \<Rightarrow> (string \<Rightarrow> async) \<Rightarrow> async" where
  "try_catch body handler s =
     (case body s of (Throws e, s') \<Rightarrow> handler e s' | (r, s') \<Rightarrow> (r, s'))"

definition toast :: "Toast \<Rightarrow> async" where
  "toast t s = (Done, s\<lparr>toasts := toasts s @ [t]\<rparr>)"

definition console_error :: "string \<Rightarrow> string \<Rightarrow> async" where
  "console_error msg e s = (Done, s\<lparr>console_errors := console_errors s @ [(msg, e)]\<rparr>)"

text \<open>
  What the page cannot decide: whether the document has \<^verbatim>\<open>fonts\<close>, how
  \<^verbatim>\<open>document.fonts.ready\<close> settles, and how the rasterizer's
  \<^verbatim>\<open>html2pdf().set(opt).from(element).save()\<close> settles.
\<close>

record ExportEnv =
  fonts_in_document :: bool
  fonts_ready :: settlement
  html2pdf_save :: "Html2PdfOptions \<Rightarrow> ExportNode \<Rightarrow> settlement"

definition html2pdf :: "ExportEnv \<Rightarrow> Html2PdfOptions \<Rightarrow> ExportNode \<Rightarrow> async" where
  "html2pdf env opt element s =
     await (html2pdf_save env opt element)
       (s\<lparr>html2pdf_calls := html2pdf_calls s @ [(opt, element)]\<rparr>)"

text \<open>
  The wait for one image: settled at once when the image is complete, otherwise a promise
  that resolves on \<^verbatim>\<open>load\<close> or \<^verbatim>\<open>error\<close> and is never rejected. \<^verbatim>\<open>Promise.all\<close> is
  rejected with the first rejection, is pending while a promise is, and is fulfilled when
  all are.
\<close>

definition img_wait :: "Img \<Rightarrow> settlement" where
  "img_wait img =
     (if img_complete img then Fulfilled else if img_settles img then Fulfilled else Pending)"

definition Promise_all :: "settlement list \<Rightarrow> settlement" where
  "Promise_all ps =
     (case find (\<lambda>p. case p of Rejected e \<Rightarrow> True | _ \<Rightarrow> False) ps of
        Some r \<Rightarrow> r
      | None \<Rightarrow> if List.member ps Pending then Pending else Fulfilled)"

definition toast_generating :: Toast where
  "toast_generating =
     \<lparr>title = ''Generating PDF...'', description = ''Please wait while we create your CV.'',
      variant = None\<rparr>"

definition toast_downloaded :: Toast where
  "toast_downloaded =
     \<lparr>title = ''PDF Downloaded!'',
      description = ''Your CV has been successfully downloaded.'', variant = None\<rparr>"

definition toast_failed :: Toast where
  "toast_failed =
     \<lparr>title = ''Download Failed'',
      description = ''There was an error generating your PDF. Please try again.'',
      variant = Some ''destructive''\<rparr>"

definition opt_basic :: Html2PdfOptions where
  "opt_basic =
     \<lparr>margin = 0, filename = ''my-cv.pdf'', image_type = ''jpeg'', image_quality = 98 / 100,
      html2canvas_scale = 378 / 100, html2canvas_useCORS = True, jsPDF_unit = ''mm'',
      jsPDF_format = (210, 297), jsPDF_orientation = ''portrait'', pagebreak_mode = None\<rparr>"

definition opt_pagebreak :: Html2PdfOptions where
  "opt_pagebreak = opt_basic\<lparr>pagebreak_mode := Some [''css'', ''legacy'']\<rparr>"

text \<open>\<^verbatim>\<open>!selectedTemplate\<close>: no template, or the empty identifier.\<close>

definition no_template :: "BuilderState \<Rightarrow> bool" where
  "no_template s = (case selectedTemplate s of None \<Rightarrow> True | Some t \<Rightarrow> t = [])"

text \<open>
  The handler that catches what the export throws:
  \<^verbatim>\<open>console.error("Error generating PDF:", error); toast({title: "Download Failed", ...})\<close>
\<close>

definition export_failed :: "string \<Rightarrow> async" where
  "export_failed error = seq (console_error ''Error generating PDF:'' error) (toast toast_failed)"

text \<open>The revision of CVBuilder.tsx (lines 123--158): no waits before the rasterizer.\<close>

definition handleDownloadPDF_basic :: "ExportEnv \<Rightarrow> async" where
  "handleDownloadPDF_basic env s =
     (case exportRef s of
        None \<Rightarrow> (Done, s)
      | Some element \<Rightarrow>
          if no_template s then (Done, s)
          else
            try_catch
              (seq (toast toast_generating)
                 (seq (html2pdf env opt_basic element) (toast toast_downloaded)))
              export_failed s)"

text \<open>
  The revision with the unbounded export node (part_001, lines 87--122): it waits for the
  fonts, tolerating a rejection, and for the images of the export node. The two other
  revisions with these waits (part_000 and the second page of part_001) differ from it
  only in passing the options without the page-break entry. The export node is the one
  found by the guard: the ref is taken not to change while the handler runs.
\<close>

definition handleDownloadPDF :: "ExportEnv \<Rightarrow> async" where
  "handleDownloadPDF env s =
     (case exportRef s of
        None \<Rightarrow> (Done, s)
      | Some element \<Rightarrow>
          if no_template s then (Done, s)
          else
            try_catch
              (seq (toast toast_generating)
                 (seq (if fonts_in_document env
                       then try_catch (await (fonts_ready env)) (\<lambda>e. skip) else skip)
                    (seq (await (Promise_all (map img_wait (imgs element))))
                       (seq (html2pdf env opt_pagebreak element) (toast toast_downloaded)))))
              export_failed s)"

text \<open>The state of the page when it is first rendered (the initial values of its hooks).\<close>

definition initial_state :: BuilderState where
  "initial_state =
     \<lparr>selectedTemplate = None, previewMode = False, previewScale = 1,
      previewContainerRef = None, exportRef = None, toasts = [], console_errors = [],
      html2pdf_calls = []\<rparr>"

section \<open>Concrete inputs and reference values\<close>

text \<open>
  A page ready to export (a template is selected and the export node is mounted, with one
  image that has loaded), and two behaviours of the collaborators: the fonts promise is
  rejected while the rasterizer succeeds, and the rasterizer fails.
\<close>

definition ready_state :: BuilderState where
  "ready_state =
     initial_state\<lparr>selectedTemplate := Some ''professional'',
                   exportRef := Some \<lparr>imgs = [\<lparr>img_complete = True, img_settles = True\<rparr>]\<rparr>\<rparr>"

definition rejecting_fonts :: ExportEnv where
  "rejecting_fonts =
     \<lparr>fonts_in_document = True, fonts_ready = Rejected ''fonts'',
      html2pdf_save = (\<lambda>opt element. Fulfilled)\<rparr>"

definition rejecting_rasterizer :: ExportEnv where
  "rejecting_rasterizer =
     \<lparr>fonts_in_document = True, fonts_ready = Fulfilled,
      html2pdf_save = (\<lambda>opt element. Rejected ''canvas'')\<rparr>"


text \<open>
  The headings that the data calls for, in document order, in the two-column layout
  (\<open>two = True\<close>) and in the single-column layout.
\<close>

definition section_titles :: "bool \<Rightarrow> CVData \<Rightarrow> string list" where
  "section_titles two d =
     (if two then
        [''Contact'']
        @ (if skills d \<noteq> [] then [''Skills''] else [])
        @ (if languages d \<noteq> [] then [''Languages''] else [])
        @ (if certifications d \<noteq> [] then [''Certifications''] else [])
        @ (if references d \<noteq> [] then [''References''] else [])
        @ (if summary d \<noteq> [] then [''Professional Summary''] else [])
        @ (if workExperience d \<noteq> [] then [''Work Experience''] else [])
        @ (if education d \<noteq> [] then [''Education''] else [])
      else
        (if summary d \<noteq> [] then [''Professional Summary''] else [])
        @ (if workExperience d \<noteq> [] then [''Work Experience''] else [])
        @ (if education d \<noteq> [] then [''Education''] else [])
        @ (if skills d \<noteq> [] then [''Skills''] else [])
        @ (if languages d \<noteq> [] then [''Languages''] else [])
        @ (if certifications d \<noteq> [] then [''Certifications''] else [])
        @ (if references d \<noteq> [] then [''References''] else []))"


text \<open>
  What each section is to show, in the words of the specification: the texts of a Skills
  entry are its name and its level, and so on; a Work Experience entry shows its job
  title, its company, its start date, a dash, its end date (\<^verbatim>\<open>Present\<close> for a current
  job) and its responsibilities that are not blank; the Contact section shows those of
  the four contact fields that are not empty.
\<close>

definition contact_lines :: "CVData \<Rightarrow> string list" where
  "contact_lines d =
     filter (\<lambda>v. v \<noteq> [])
       [email (personalInfo d), phone (personalInfo d), address (personalInfo d),
        website (personalInfo d)]"

definition skill_texts :: "Skill \<Rightarrow> string list" where
  "skill_texts skill = [skill_name skill, level skill]"

definition language_texts :: "Language \<Rightarrow> string list" where
  "language_texts lang = [lang_name lang, proficiency lang]"

definition certification_texts :: "js_host \<Rightarrow> Certification \<Rightarrow> string list" where
  "certification_texts host cert =
     [cert_name cert, issuer cert, formatDate host (cert_date cert)]"

definition reference_texts :: "Reference \<Rightarrow> string list" where
  "reference_texts ref = [ref_name ref, organization ref, ref_email ref, ref_phone ref]"

definition work_entry_texts :: "js_host \<Rightarrow> WorkExperience \<Rightarrow> string list" where
  "work_entry_texts host we =
     [exp_jobTitle we, company we, formatDate host (exp_startDate we), '' - '',
      if current we then ''Present'' else formatDate host (exp_endDate we)]
     @ filter (\<lambda>r. js_trim r \<noteq> []) (responsibilities we)"

definition education_entry_texts :: "js_host \<Rightarrow> Education \<Rightarrow> string list" where
  "education_entry_texts host edu =
     [degree edu, fieldOfStudy edu, institution edu, formatDate host (edu_startDate edu),
      '' - '', formatDate host (edu_endDate edu)]
     @ (case grade edu of
          None \<Rightarrow> []
        | Some g \<Rightarrow> if g \<noteq> [] then [''Grade: '', g] else [])"

text \<open>
  A section over a collection is there when the collection is not empty, and shows the
  texts of every entry, in the order of the collection.
\<close>

definition section_of :: "string \<Rightarrow> 'a list \<Rightarrow> ('a \<Rightarrow> string list) \<Rightarrow> (string \<times> string list) list" where
  "section_of h xs f = (if xs \<noteq> [] then [(h, concat (map f xs))] else [])"

definition summary_section :: "CVData \<Rightarrow> (string \<times> string list) list" where
  "summary_section d =
     (if summary d \<noteq> [] then [(''Professional Summary'', [summary d])] else [])"

text \<open>
  The sections that the data calls for, each with the texts it is to show, in document
  order, in the two-column layout (\<open>two = True\<close>) and in the single-column layout.
\<close>

definition expected_sections :: "bool \<Rightarrow> js_host \<Rightarrow> CVData \<Rightarrow> (string \<times> string list) list" where
  "expected_sections two host d =
     (if two then
        [(''Contact'', contact_lines d)]
        @ section_of ''Skills'' (skills d) skill_texts
        @ section_of ''Languages'' (languages d) language_texts
        @ section_of ''Certifications'' (certifications d) (certification_texts host)
        @ section_of ''References'' (references d) reference_texts
        @ summary_section d
        @ section_of ''Work Experience'' (workExperience d) (work_entry_texts host)
        @ section_of ''Education'' (education d) (education_entry_texts host)
      else
        summary_section d
        @ section_of ''Work Experience'' (workExperience d) (work_entry_texts host)
        @ section_of ''Education'' (education d) (education_entry_texts host)
        @ section_of ''Skills'' (skills d) skill_texts
        @ section_of ''Languages'' (languages d) language_texts
        @ section_of ''Certifications'' (certifications d) (certification_texts host)
        @ section_of ''References'' (references d) reference_texts)"


text \<open>
  Replacing the stored end date of every current entry (by \<open>f\<close> of the entry), and a
  current job that still stores an end date.
\<close>

definition ignore_end :: "(WorkExperience \<Rightarrow> string) \<Rightarrow> WorkExperience \<Rightarrow> WorkExperience" where
  "ignore_end f we = (if current we then we\<lparr>exp_endDate := f we\<rparr> else we)"

definition current_job :: WorkExperience where
  "current_job =
     \<lparr>exp_id = ''1'', exp_jobTitle = ''Senior Software Engineer'', company = ''TechCorp Inc.'',
      exp_startDate = ''2022-01-01'', exp_endDate = ''2023-05'', current = True,
      responsibilities = [''Mentor team of 5 junior developers and conduct code reviews'', '' '']\<rparr>"


section \<open>Properties\<close>

subsection \<open>Skill levels\<close>

lemma getSkillLevel_known:
  "getSkillLevel_v1 ''Beginner'' = Value 25 \<and> getSkillLevel_v1 ''Intermediate'' = Value 50
   \<and> getSkillLevel_v1 ''Advanced'' = Value 75 \<and> getSkillLevel_v1 ''Expert'' = Value 100
   \<and> getSkillLevel_v2 ''Beginner'' = Value 25 \<and> getSkillLevel_v2 ''Intermediate'' = Value 50
   \<and> getSkillLevel_v2 ''Advanced'' = Value 75 \<and> getSkillLevel_v2 ''Expert'' = Value 100"
  by (simp add: getSkillLevel_v1_def getSkillLevel_v2_def js_get_def levels_def)

lemma skill_bar_width_known:
  "map (\<lambda>l. skill_bar_width (getSkillLevel rv l))
     [''Beginner'', ''Intermediate'', ''Advanced'', ''Expert''] =
   [''25%'', ''50%'', ''75%'', ''100%'']"
  using getSkillLevel_known
  by (cases rv) (simp_all add: getSkillLevel_def skill_bar_width_def show_nat.simps digit_char_def)

lemma getSkillLevel_unknown:
  assumes "\<not> List.member (map fst levels) lvl" and "\<not> List.member Object_prototype_keys lvl"
  shows "getSkillLevel_v1 lvl = Value 50 \<and> getSkillLevel_v2 lvl = Value 50"
proof -
  from assms(1) have "map_of levels lvl = None"
    by (simp add: levels_def)
  with assms(2) show ?thesis
    by (simp add: getSkillLevel_v1_def getSkillLevel_v2_def js_get_def)
qed

text \<open>
  Claim C3: the mapping from skill level to bar width sends Beginner, Intermediate,
  Advanced and Expert to 25, 50, 75 and 100, and every other level string to 50.

  The four levels are mapped as claimed (\<open>getSkillLevel_known\<close>), and so is every string
  that names neither a level nor a member of \<^verbatim>\<open>Object.prototype\<close>
  (\<open>getSkillLevel_unknown\<close>). For a string that names such a member the lookup finds the
  member on the prototype chain; it is neither falsy nor nullish, so both revisions return
  it instead of 50, and the bar's width is not a percentage: both revisions of
  \<^verbatim>\<open>getSkillLevel\<close> return the constructor of \<^verbatim>\<open>Object\<close> for the level
  \<^verbatim>\<open>constructor\<close>.
\<close>

theorem getSkillLevel_inherited_member:
  "getSkillLevel_v1 ''constructor'' = Inherited ''constructor''
   \<and> getSkillLevel_v2 ''constructor'' = Inherited ''constructor''
   \<and> skill_bar_width (getSkillLevel_v1 ''constructor'') = ''function Object() { [native code] }%''
   \<and> skill_bar_width (getSkillLevel_v2 ''constructor'') = ''function Object() { [native code] }%''"
  by (simp add: getSkillLevel_v1_def getSkillLevel_v2_def js_get_def levels_def
      Object_prototype_keys_def skill_bar_width_def inherited_text_def)

subsection \<open>Theme colours\<close>

lemma getColorValues_v2_total:
  "\<exists>c. getColorValues_v2 n = Value c \<and> List.member (map snd colorMap) c"
  by (simp add: getColorValues_v2_def hasOwnProperty_def js_get_def colorMap_def)

lemma getColorValues_v2_fallback:
  "\<not> List.member [''slate'', ''rose'', ''emerald'', ''amber'', ''blue'', ''orange''] n \<Longrightarrow>
   getColorValues_v2 n = getColorValues_v2 ''slate''"
  by (simp add: getColorValues_v2_def hasOwnProperty_def js_get_def colorMap_def)

lemma getColorValues_v1_fallback:
  "\<not> List.member [''slate'', ''rose'', ''emerald'', ''amber'', ''blue'', ''orange''] n \<Longrightarrow>
   \<not> List.member Object_prototype_keys n \<Longrightarrow>
   getColorValues_v1 n = getColorValues_v1 ''slate''"
  by (simp add: getColorValues_v1_def js_get_def colorMap_def)

text \<open>
  Claim C4: for every colour name the resolver returns a triple of primary, secondary
  and accent without throwing, and for every name outside the palette it returns the
  triple of slate.

  Revision 2 does (\<open>getColorValues_v2_total\<close>, \<open>getColorValues_v2_fallback\<close>): it asks
  \<^verbatim>\<open>hasOwnProperty\<close> before it reads the map. Revision 1 reads the map first, so a name
  that \<^verbatim>\<open>Object.prototype\<close> knows yields the inherited member, which is truthy and is
  returned: for \<^verbatim>\<open>constructor\<close> the result is not the triple of slate, and its
  \<^verbatim>\<open>primary\<close> is undefined.
\<close>

theorem getColorValues_v1_inherited_member:
  "getColorValues_v1 ''constructor'' = Inherited ''constructor''
   \<and> getColorValues_v1 ''constructor'' \<noteq> getColorValues_v1 ''slate''
   \<and> color_field primary (getColorValues_v1 ''constructor'') = None
   \<and> color_field primary (getColorValues_v1 ''slate'') = Some ''215, 25%, 27%''"
  by (simp add: getColorValues_v1_def js_get_def colorMap_def Object_prototype_keys_def
      color_field_def)

subsection \<open>The preview scale\<close>

lemma min_one_rounded:
  fixes fl :: "rat \<Rightarrow> rat"
  assumes "\<And>x y. x \<le> y \<Longrightarrow> fl x \<le> fl y" and "fl 1 = 1"
  shows "min (fl x) 1 = fl (min x 1)"
proof (cases "x \<le> 1")
  case True
  with assms(1) [of x 1] assms(2) show ?thesis by (simp add: min_def)
next
  case False
  then have "1 \<le> x" by simp
  then have "fl 1 \<le> fl x" by (rule assms(1))
  with False show ?thesis by (simp add: min_def assms(2))
qed

lemma calculateScale_guard:
  "previewContainerRef s = None \<or> previewMode s \<Longrightarrow> calculateScale s = s"
  by (auto simp: calculateScale_def split: option.splits)

text \<open>
  Claim C6: for every container width the computed preview scale is
  \<open>min (containerWidth / 794) 1\<close>; it never exceeds 1, and it is \<open>containerWidth / 794\<close>
  whenever that ratio is below 1. The scale is computed when the preview container is
  mounted and the page is not in preview mode (\<open>calculateScale_guard\<close> is the other case).
  The quotient is exact in the model; rounding it to a number of the machine is monotone
  and keeps 1, so it commutes with the minimum (\<open>min_one_rounded\<close>).
\<close>

theorem calculateScale_min:
  assumes "previewContainerRef s = Some w" and "\<not> previewMode s"
  shows "previewScale (calculateScale s) = min (of_nat w / 794) 1
         \<and> previewScale (calculateScale s) \<le> 1
         \<and> (of_nat w / (794 :: rat) < 1 \<longrightarrow> previewScale (calculateScale s) = of_nat w / 794)"
  using assms by (simp add: calculateScale_def Let_def)

theorem calculateScale_min_witness:
  "previewContainerRef (initial_state\<lparr>previewContainerRef := Some 397\<rparr>) = Some 397
   \<and> \<not> previewMode (initial_state\<lparr>previewContainerRef := Some 397\<rparr>)
   \<and> of_nat 397 / (794 :: rat) < 1
   \<and> previewScale (calculateScale (initial_state\<lparr>previewContainerRef := Some 397\<rparr>)) = 1 / 2
   \<and> previewScale (calculateScale (initial_state\<lparr>previewContainerRef := Some 3000\<rparr>)) = 1"
  using calculateScale_min [of "initial_state\<lparr>previewContainerRef := Some 397\<rparr>" 397]
    calculateScale_min [of "initial_state\<lparr>previewContainerRef := Some 3000\<rparr>" 3000]
  by (simp add: initial_state_def)

subsection \<open>Dates\<close>











subsection \<open>Completeness\<close>

lemma Math_round_fifths: "Math_round (of_nat k / of_nat (5 :: nat) * 100) = 20 * int k"
proof -
  have eq: "(of_nat k :: rat) / of_nat (5 :: nat) * 100 + 1 / 2 = of_int (20 * int k) + 1 / 2"
    by simp
  show ?thesis
    unfolding Math_round_def eq by (rule floor_unique) simp_all
qed

lemma truthy_js_and [simp]: "truthy (js_and a b) = (truthy a \<and> truthy b)"
  by (simp add: js_and_def)

text \<open>
  What the evaluator returns for every CVData: the five sections in their order, each
  flag truthy exactly when the section's presence check holds, a percentage of twenty
  times the number of truthy flags, and no dependence on the languages, certifications
  and references.
\<close>

lemma calculateCompleteness_sections:
  "map name (sections (calculateCompleteness d)) =
     [''Personal Information'', ''Summary'', ''Work Experience'', ''Education'', ''Skills'']
   \<and> map (\<lambda>s. truthy (complete s)) (sections (calculateCompleteness d)) =
     [fullName (personalInfo d) \<noteq> [] \<and> email (personalInfo d) \<noteq> [] \<and> phone (personalInfo d) \<noteq> [],
      summary d \<noteq> [] \<and> length (summary d) > 20,
      workExperience d \<noteq> []
        \<and> list_ex (\<lambda>we. exp_jobTitle we \<noteq> [] \<and> company we \<noteq> [] \<and> exp_startDate we \<noteq> [])
             (workExperience d),
      education d \<noteq> [] \<and> list_ex (\<lambda>edu. degree edu \<noteq> [] \<and> institution edu \<noteq> []) (education d),
      skills d \<noteq> [] \<and> list_ex (\<lambda>skill. skill_name skill \<noteq> []) (skills d)]
   \<and> percentage (calculateCompleteness d) =
       20 * int (length (filter (\<lambda>s. truthy (complete s)) (sections (calculateCompleteness d))))
   \<and> 0 \<le> percentage (calculateCompleteness d) \<and> percentage (calculateCompleteness d) \<le> 100
   \<and> calculateCompleteness (d\<lparr>languages := ls, certifications := cs, references := rs\<rparr>) =
       calculateCompleteness d"
proof -
  let ?secs = "sections (calculateCompleteness d)"
  have len: "length ?secs = 5"
    by (simp add: calculateCompleteness_def Let_def)
  have pct: "percentage (calculateCompleteness d) =
      20 * int (length (filter (\<lambda>s. truthy (complete s)) ?secs))"
    by (simp only: calculateCompleteness_def Let_def Completeness.simps Math_round_fifths)
  have "length (filter (\<lambda>s. truthy (complete s)) ?secs) \<le> 5"
    using length_filter_le [of "\<lambda>s. truthy (complete s)" ?secs] len by simp
  with pct have range: "0 \<le> percentage (calculateCompleteness d)
      \<and> percentage (calculateCompleteness d) \<le> 100"
    by simp
  have names: "map name ?secs =
      [''Personal Information'', ''Summary'', ''Work Experience'', ''Education'', ''Skills'']"
    by (simp add: calculateCompleteness_def Let_def)
  have flags: "map (\<lambda>s. truthy (complete s)) ?secs =
     [fullName (personalInfo d) \<noteq> [] \<and> email (personalInfo d) \<noteq> [] \<and> phone (personalInfo d) \<noteq> [],
      summary d \<noteq> [] \<and> length (summary d) > 20,
      workExperience d \<noteq> []
        \<and> list_ex (\<lambda>we. exp_jobTitle we \<noteq> [] \<and> company we \<noteq> [] \<and> exp_startDate we \<noteq> [])
             (workExperience d),
      education d \<noteq> [] \<and> list_ex (\<lambda>edu. degree edu \<noteq> [] \<and> institution edu \<noteq> []) (education d),
      skills d \<noteq> [] \<and> list_ex (\<lambda>skill. skill_name skill \<noteq> []) (skills d)]"
    by (simp add: calculateCompleteness_def Let_def)
  have indep: "calculateCompleteness (d\<lparr>languages := ls, certifications := cs, references := rs\<rparr>) =
       calculateCompleteness d"
    by (simp add: calculateCompleteness_def)
  from names flags pct range indep show ?thesis
    by blast
qed

lemma js_and_Bool: "js_and (Bool a) (Bool b) = Bool (a \<and> b)"
  by (simp add: js_and_def)

lemma calculateCompleteness_boolean_flags:
  "map complete (drop 2 (sections (calculateCompleteness d))) =
     [Bool (workExperience d \<noteq> []
            \<and> list_ex (\<lambda>we. exp_jobTitle we \<noteq> [] \<and> company we \<noteq> [] \<and> exp_startDate we \<noteq> [])
                (workExperience d)),
      Bool (education d \<noteq> []
            \<and> list_ex (\<lambda>edu. degree edu \<noteq> [] \<and> institution edu \<noteq> []) (education d)),
      Bool (skills d \<noteq> [] \<and> list_ex (\<lambda>skill. skill_name skill \<noteq> []) (skills d))]"
  by (simp add: calculateCompleteness_def Let_def js_and_Bool)

text \<open>
  Claim C8 promises a boolean \<^verbatim>\<open>complete\<close> flag for each of the five sections. The flags
  of Work Experience, Education and Skills are comparisons and \<^verbatim>\<open>some(...)\<close> results,
  so they are booleans. The flag of Personal Information is the bare \<^verbatim>\<open>&&\<close> chain
  \<^verbatim>\<open>fullName && email && phone\<close> over three strings, and the flag of Summary starts with
  the string \<^verbatim>\<open>data.summary\<close>: neither is coerced, so the flag is a string whenever the
  chain stops at a string. For the placeholder data the flag of Personal Information is
  the phone number, and for the initial data the flags of Personal Information and of
  Summary are the empty string, where the three other flags are \<^verbatim>\<open>false\<close>.
\<close>

theorem calculateCompleteness_string_flag:
  "map complete (sections (calculateCompleteness placeholderData)) =
     [Str ''+1 (555) 000-0000'', Bool True, Bool False, Bool True, Bool True]
   \<and> map complete (sections (calculateCompleteness initialCVData)) =
     [Str [], Str [], Bool False, Bool False, Bool False]"
  by (simp add: calculateCompleteness_def Let_def placeholderData_def initialCVData_def js_and_def)

subsection \<open>The export\<close>

lemma export_failed_completes: "fst (export_failed e s) = Done"
  by (simp add: export_failed_def seq_def console_error_def toast_def)

lemma try_catch_export_failed: "fst (try_catch body export_failed s) \<noteq> Throws e"
  using export_failed_completes
  by (auto simp: try_catch_def split: prod.splits outcome.splits)

lemma handleDownloadPDF_never_throws:
  "fst (handleDownloadPDF env s) \<noteq> Throws e \<and> fst (handleDownloadPDF_basic env s) \<noteq> Throws e"
  using try_catch_export_failed
  by (simp add: handleDownloadPDF_def handleDownloadPDF_basic_def split: option.splits)

lemma try_catch_export_failed_state:
  "body s = (Throws err, s') \<Longrightarrow>
   try_catch body export_failed s =
     (Done, s'\<lparr>console_errors := console_errors s' @ [(''Error generating PDF:'', err)],
               toasts := toasts s' @ [toast_failed]\<rparr>)"
  by (simp add: try_catch_def export_failed_def seq_def console_error_def toast_def)

lemma handleDownloadPDF_no_ref:
  "exportRef s = None \<Longrightarrow>
   handleDownloadPDF env s = (Done, s) \<and> handleDownloadPDF_basic env s = (Done, s)"
  by (simp add: handleDownloadPDF_def handleDownloadPDF_basic_def)

lemma handleDownloadPDF_basic_rejected:
  assumes "exportRef s = Some el" and "\<not> no_template s"
    and "html2pdf_save env opt_basic el = Rejected err"
  shows "handleDownloadPDF_basic env s =
     (Done, s\<lparr>toasts := toasts s @ [toast_generating, toast_failed],
              console_errors := console_errors s @ [(''Error generating PDF:'', err)],
              html2pdf_calls := html2pdf_calls s @ [(opt_basic, el)]\<rparr>)"
  using assms
  by (simp add: handleDownloadPDF_basic_def try_catch_def seq_def toast_def html2pdf_def
      await_def export_failed_def console_error_def)

lemma fonts_step:
  "fonts_in_document env \<longrightarrow> fonts_ready env \<noteq> Pending \<Longrightarrow>
   (if fonts_in_document env then try_catch (await (fonts_ready env)) (\<lambda>e. skip) else skip) s
     = (Done, s)"
  by (cases "fonts_ready env") (simp_all add: try_catch_def await_def skip_def)

lemma handleDownloadPDF_rejected:
  assumes "exportRef s = Some el" and "\<not> no_template s"
    and "fonts_in_document env \<longrightarrow> fonts_ready env \<noteq> Pending"
    and "Promise_all (map img_wait (imgs el)) = Fulfilled"
    and "html2pdf_save env opt_pagebreak el = Rejected err"
  shows "handleDownloadPDF env s =
     (Done, s\<lparr>toasts := toasts s @ [toast_generating, toast_failed],
              console_errors := console_errors s @ [(''Error generating PDF:'', err)],
              html2pdf_calls := html2pdf_calls s @ [(opt_pagebreak, el)]\<rparr>)"
proof -
  let ?s1 = "s\<lparr>toasts := toasts s @ [toast_generating]\<rparr>"
  have f: "(if fonts_in_document env then try_catch (await (fonts_ready env)) (\<lambda>e. skip)
            else skip) ?s1 = (Done, ?s1)"
    using assms(3) by (rule fonts_step)
  show ?thesis
    using assms(1,2,4,5)
    by (simp add: handleDownloadPDF_def try_catch_def seq_def [abs_def] f toast_def html2pdf_def
        await_def export_failed_def console_error_def)
qed

text \<open>
  Claim C7, as stated, fails for one step of the export sequence: when the wait for the
  fonts throws, the revision that has this wait swallows the error and goes on, and with
  a rasterizer that succeeds the export ends in the success notification, not in the
  failure notification.
\<close>

theorem handleDownloadPDF_fonts_rejection_tolerated:
  "fonts_in_document rejecting_fonts \<and> fonts_ready rejecting_fonts = Rejected ''fonts''
   \<and> handleDownloadPDF rejecting_fonts ready_state =
       (Done, ready_state\<lparr>toasts := [toast_generating, toast_downloaded],
                          html2pdf_calls :=
                            [(opt_pagebreak, \<lparr>imgs = [\<lparr>img_complete = True, img_settles = True\<rparr>]\<rparr>)]\<rparr>)
   \<and> toast_downloaded \<noteq> toast_failed"
  by (simp add: handleDownloadPDF_def ready_state_def initial_state_def rejecting_fonts_def
      no_template_def try_catch_def seq_def toast_def html2pdf_def await_def skip_def
      Promise_all_def img_wait_def toast_downloaded_def toast_failed_def)

text \<open>
  Claim C7, amended: for every state of the page and every behaviour of the fonts promise
  and of the rasterizer, in both revisions of the export: when the export node's ref is
  missing the export is a no-op (the state is unchanged and the rasterizer is not
  called); no exception leaves the handler; and when the rasterizer throws, the handler
  completes in the failure state: the failure notification follows the progress
  notification and the error is logged. The same holds for whatever the body of the
  \<^verbatim>\<open>try\<close> block throws: the handler logs it and ends in the failure notification. A
  rejection of the wait for the fonts does not reach that handler: it is swallowed and
  the export goes on.
\<close>

theorem handleDownloadPDF_failure_path:
  "(exportRef s = None \<longrightarrow>
      handleDownloadPDF env s = (Done, s) \<and> handleDownloadPDF_basic env s = (Done, s))
   \<and> fst (handleDownloadPDF env s) \<noteq> Throws e
   \<and> fst (handleDownloadPDF_basic env s) \<noteq> Throws e
   \<and> (body s = (Throws err, s') \<longrightarrow>
      try_catch body export_failed s =
        (Done, s'\<lparr>console_errors := console_errors s' @ [(''Error generating PDF:'', err)],
                  toasts := toasts s' @ [toast_failed]\<rparr>))
   \<and> (exportRef s = Some el \<and> \<not> no_template s
        \<and> html2pdf_save env opt_basic el = Rejected err \<longrightarrow>
      handleDownloadPDF_basic env s =
        (Done, s\<lparr>toasts := toasts s @ [toast_generating, toast_failed],
                 console_errors := console_errors s @ [(''Error generating PDF:'', err)],
                 html2pdf_calls := html2pdf_calls s @ [(opt_basic, el)]\<rparr>))
   \<and> (exportRef s = Some el \<and> \<not> no_template s
        \<and> (fonts_in_document env \<longrightarrow> fonts_ready env \<noteq> Pending)
        \<and> Promise_all (map img_wait (imgs el)) = Fulfilled
        \<and> html2pdf_save env opt_pagebreak el = Rejected err \<longrightarrow>
      handleDownloadPDF env s =
        (Done, s\<lparr>toasts := toasts s @ [toast_generating, toast_failed],
                 console_errors := console_errors s @ [(''Error generating PDF:'', err)],
                 html2pdf_calls := html2pdf_calls s @ [(opt_pagebreak, el)]\<rparr>))"
  using handleDownloadPDF_no_ref [of s env] handleDownloadPDF_never_throws [of env s e]
    handleDownloadPDF_basic_rejected [of s el env err] handleDownloadPDF_rejected [of s el env err]
    try_catch_export_failed_state [of body s err s']
  by blast

theorem handleDownloadPDF_failure_path_witness:
  "exportRef initial_state = None
   \<and> handleDownloadPDF rejecting_rasterizer initial_state = (Done, initial_state)
   \<and> exportRef ready_state = Some \<lparr>imgs = [\<lparr>img_complete = True, img_settles = True\<rparr>]\<rparr>
   \<and> \<not> no_template ready_state
   \<and> fonts_ready rejecting_rasterizer \<noteq> Pending
   \<and> Promise_all (map img_wait [\<lparr>img_complete = True, img_settles = True\<rparr>]) = Fulfilled
   \<and> html2pdf_save rejecting_rasterizer opt_pagebreak
        \<lparr>imgs = [\<lparr>img_complete = True, img_settles = True\<rparr>]\<rparr> = Rejected ''canvas''
   \<and> toasts (snd (handleDownloadPDF rejecting_rasterizer ready_state)) =
        [toast_generating, toast_failed]
   \<and> toasts (snd (handleDownloadPDF_basic rejecting_rasterizer ready_state)) =
        [toast_generating, toast_failed]
   \<and> fst (handleDownloadPDF rejecting_rasterizer ready_state) = Done
   \<and> await (Rejected ''canvas'') ready_state = (Throws ''canvas'', ready_state)
   \<and> toasts (snd (try_catch (await (Rejected ''canvas'')) export_failed ready_state)) =
        [toast_failed]"
  using handleDownloadPDF_failure_path [where s = initial_state and env = rejecting_rasterizer
      and e = "''canvas''" and el = "\<lparr>imgs = []\<rparr>" and err = "''canvas''"
      and body = "await (Rejected ''canvas'')" and s' = initial_state]
    handleDownloadPDF_failure_path [where s = ready_state and env = rejecting_rasterizer
      and e = "''canvas''" and el = "\<lparr>imgs = [\<lparr>img_complete = True, img_settles = True\<rparr>]\<rparr>"
      and err = "''canvas''" and body = "await (Rejected ''canvas'')" and s' = ready_state]
  by (simp add: ready_state_def initial_state_def rejecting_rasterizer_def no_template_def
      Promise_all_def img_wait_def await_def)

subsection \<open>Sections and their headings\<close>

lemma texts_of_list_append [simp]:
  "texts_of_list t (xs @ ys) = texts_of_list t xs @ texts_of_list t ys"
  by (induction xs) simp_all

lemma texts_of_list_map_empty:
  "(\<And>x. texts_of t (f x) = []) \<Longrightarrow> texts_of_list t (map f xs) = []"
  by (induction xs) simp_all

lemma h3_responsibility_items: "texts_of_list ''h3'' (responsibility_items rs) = []"
  unfolding responsibility_items_def
  by (rule texts_of_list_map_empty) (simp split: prod.splits)

lemma h3_sidebar_photo: "texts_of_list ''h3'' (sidebar_photo rv t d st) = []"
  by (simp add: sidebar_photo_def profile_img_def)

lemma h3_sidebar_contact: "texts_of ''h3'' (sidebar_contact d st) = [''Contact'']"
  by (simp add: sidebar_contact_def sidebar_contact_line_def sidebar_heading_def)

lemma h3_sidebar_skills:
  "texts_of_list ''h3'' (sidebar_skills rv d st) = (if skills d \<noteq> [] then [''Skills''] else [])"
  by (simp add: sidebar_skills_def sidebar_heading_def sidebar_skill_def texts_of_list_map_empty)

lemma h3_sidebar_languages:
  "texts_of_list ''h3'' (sidebar_languages d st) =
     (if languages d \<noteq> [] then [''Languages''] else [])"
  by (simp add: sidebar_languages_def sidebar_heading_def sidebar_language_def
      texts_of_list_map_empty)

lemma h3_sidebar_certifications:
  "texts_of_list ''h3'' (sidebar_certifications host d st) =
     (if certifications d \<noteq> [] then [''Certifications''] else [])"
  by (simp add: sidebar_certifications_def sidebar_heading_def sidebar_certification_def
      texts_of_list_map_empty)

lemma h3_sidebar_references:
  "texts_of_list ''h3'' (sidebar_references d st) =
     (if references d \<noteq> [] then [''References''] else [])"
  by (simp add: sidebar_references_def sidebar_heading_def sidebar_reference_def
      texts_of_list_map_empty)

lemma h3_two_column_header: "texts_of ''h3'' (two_column_header t d st) = []"
  by (simp add: two_column_header_def)

lemma h3_two_column_summary:
  "texts_of_list ''h3'' (two_column_summary d st) =
     (if summary d \<noteq> [] then [''Professional Summary''] else [])"
  by (simp add: two_column_summary_def)

lemma h3_two_column_work_entry: "texts_of ''h3'' (two_column_work_entry host t st we) = []"
  by (simp add: two_column_work_entry_def accent_bar_def work_dates_def h3_responsibility_items)

lemma h3_two_column_work:
  "texts_of_list ''h3'' (two_column_work host t d st) =
     (if workExperience d \<noteq> [] then [''Work Experience''] else [])"
  by (simp add: two_column_work_def h3_two_column_work_entry texts_of_list_map_empty)

lemma h3_grade_line: "texts_of_list ''h3'' (grade_line edu) = []"
  by (simp add: grade_line_def split: option.splits)

lemma h3_two_column_education_entry:
  "texts_of ''h3'' (two_column_education_entry host t st edu) = []"
  by (simp add: two_column_education_entry_def accent_bar_def h3_grade_line)

lemma h3_two_column_education:
  "texts_of_list ''h3'' (two_column_education host t d st) =
     (if education d \<noteq> [] then [''Education''] else [])"
  by (simp add: two_column_education_def h3_two_column_education_entry texts_of_list_map_empty)

lemma h3_single_column_header: "texts_of ''h3'' (single_column_header rv t d st) = []"
  by (simp add: single_column_header_def header_contact_def header_contact_line_def
      profile_img_def)

lemma h3_single_column_summary:
  "texts_of_list ''h3'' (single_column_summary d st) =
     (if summary d \<noteq> [] then [''Professional Summary''] else [])"
  by (simp add: single_column_summary_def section_heading_def)

lemma h3_single_column_work_entry: "texts_of ''h3'' (single_column_work_entry host t st we) = []"
  by (simp add: single_column_work_entry_def accent_bar_def work_dates_def
      h3_responsibility_items)

lemma h3_single_column_work:
  "texts_of_list ''h3'' (single_column_work host t d st) =
     (if workExperience d \<noteq> [] then [''Work Experience''] else [])"
  by (simp add: single_column_work_def section_heading_def h3_single_column_work_entry
      texts_of_list_map_empty)

lemma h3_single_column_education:
  "texts_of_list ''h3'' (single_column_education rv host d st) =
     (if education d \<noteq> [] then [''Education''] else [])"
  by (simp add: single_column_education_def section_heading_def
      single_column_education_entry_def h3_grade_line texts_of_list_map_empty)

lemma h3_single_column_skills:
  "texts_of_list ''h3'' (single_column_skills rv d st) =
     (if skills d \<noteq> [] then [''Skills''] else [])"
  by (simp add: single_column_skills_def section_heading_def single_column_skill_def
      texts_of_list_map_empty)

lemma h3_single_column_languages:
  "texts_of_list ''h3'' (single_column_languages d st) =
     (if languages d \<noteq> [] then [''Languages''] else [])"
  by (simp add: single_column_languages_def section_heading_def single_column_language_def
      texts_of_list_map_empty)

lemma h3_single_column_certifications:
  "texts_of_list ''h3'' (single_column_certifications host d st) =
     (if certifications d \<noteq> [] then [''Certifications''] else [])"
  by (simp add: single_column_certifications_def section_heading_def
      single_column_certification_def texts_of_list_map_empty)

lemma h3_single_column_references:
  "texts_of_list ''h3'' (single_column_references d st) =
     (if references d \<noteq> [] then [''References''] else [])"
  by (simp add: single_column_references_def section_heading_def single_column_reference_def
      texts_of_list_map_empty)

lemmas h3_sections =
  h3_sidebar_photo h3_sidebar_contact h3_sidebar_skills h3_sidebar_languages
  h3_sidebar_certifications h3_sidebar_references h3_two_column_header h3_two_column_summary
  h3_two_column_work h3_two_column_education h3_single_column_header
  h3_single_column_summary h3_single_column_work h3_single_column_education
  h3_single_column_skills h3_single_column_languages h3_single_column_certifications
  h3_single_column_references

lemma h3_two_columns:
  "texts_of ''h3'' (sidebar rv host t d st) @ texts_of ''h3'' (content_column host t d st) =
     section_titles True d"
  by (simp add: sidebar_def content_column_def section_titles_def h3_sections
      split del: if_split)

lemma h3_single_column_body:
  "texts_of_list ''h3'' (single_column_body rv host t d st) = section_titles False d"
  by (simp add: single_column_body_def section_titles_def h3_sections split del: if_split)

lemma h3_CVPreview_v1:
  "texts_of ''h3'' (CVPreview_v1 host p) = section_titles (columns (template p) = 2) (data p)"
proof (cases "columns (template p) = 2")
  case True
  then show ?thesis
    using h3_two_columns [of Rev1 host "template p" "data p" "getTemplateStyles (template p)"]
    by (simp add: CVPreview_v1_def Let_def)
next
  case False
  then show ?thesis
    by (simp add: CVPreview_v1_def Let_def h3_single_column_body)
qed

lemma h3_CVPreview_v2:
  "texts_of ''h3'' (CVPreview_v2 host p) = section_titles (columns (template p) = 2) (data p)"
proof (cases "columns (template p) = 2")
  case True
  then show ?thesis
    using h3_two_columns [of Rev2 host "template p" "data p" "getTemplateStyles (template p)"]
    by (cases "isFullPagePDF p") (simp_all add: CVPreview_v2_def Let_def)
next
  case False
  then show ?thesis
    by (cases "isFullPagePDF p") (simp_all add: CVPreview_v2_def Let_def h3_single_column_body)
qed

lemma member_append_if:
  "List.member (xs @ ys) x = (List.member xs x \<or> List.member ys x)"
  "List.member (if c then [a] else []) x = (c \<and> x = a)"
  "List.member [a] x = (x = a)"
  by auto

lemma has_section_CVPreview:
  assumes "tree = CVPreview_v1 host p \<or> tree = CVPreview_v2 host p"
  shows "has_section h tree = List.member (section_titles (columns (template p) = 2) (data p)) h"
  using assms by (auto simp: has_section_def h3_CVPreview_v1 h3_CVPreview_v2)

text \<open>The sections of the layouts and the texts they show.\<close>

lemma section_blocks_list_append [simp]:
  "section_blocks_list (xs @ ys) = section_blocks_list xs @ section_blocks_list ys"
  by (induction xs) simp_all

lemma texts_list_map: "texts_list (map f xs) = concat (map (\<lambda>x. texts (f x)) xs)"
  by (induction xs) simp_all

lemma section_blocks_list_map_empty:
  "(\<And>x. section_blocks (f x) = []) \<Longrightarrow> section_blocks_list (map f xs) = []"
  by (induction xs) simp_all

lemma block_of_simps [simp]:
  "block_of [] = []"
  "block_of (c # rest) = (case heading_of c of None \<Rightarrow> [] | Some t \<Rightarrow> [(t, texts_list rest)])"
  by (simp_all add: block_of_def)

lemma heading_of_simps [simp]:
  "heading_of (Text s) = None"
  "tg \<noteq> ''h3'' \<Longrightarrow> heading_of (Element tg cls as cs) = None"
  "heading_of (Element ''h3'' cls as [Text t]) = Some t"
  by (simp_all add: heading_of_def)

lemma block_of_map_empty: "(\<And>x. heading_of (f x) = None) \<Longrightarrow> block_of (map f xs) = []"
  by (cases xs) simp_all

lemma block_of_no_heading: "list_all (\<lambda>v. heading_of v = None) cs \<Longrightarrow> block_of cs = []"
  by (cases cs) simp_all

lemma blocks_responsibility_items:
  "block_of (responsibility_items rs) = []"
  "section_blocks_list (responsibility_items rs) = []"
  unfolding responsibility_items_def
  by (rule block_of_map_empty, simp split: prod.splits)
     (rule section_blocks_list_map_empty, simp split: prod.splits)


lemma texts_list_append [simp]: "texts_list (xs @ ys) = texts_list xs @ texts_list ys"
  by (induction xs) simp_all

lemma texts_list_items:
  "texts_list (map (\<lambda>(index, resp). Element ''li'' c [(k, show_nat index)] [Text resp])
     (enumerate n xs)) = xs"
  by (induction xs arbitrary: n) simp_all

lemma texts_responsibility_items:
  "texts_list (responsibility_items rs) = filter (\<lambda>r. js_trim r \<noteq> []) rs"
  by (simp add: responsibility_items_def texts_list_items)

lemma blocks_accent_bar:
  "texts_list (accent_bar t st) = []"
  "section_blocks_list (accent_bar t st) = []"
  "list_all (\<lambda>v. heading_of v = None) (accent_bar t st)"
  by (simp_all add: accent_bar_def)

lemma blocks_grade_line:
  "texts_list (grade_line edu) =
     (case grade edu of None \<Rightarrow> [] | Some g \<Rightarrow> if g \<noteq> [] then [''Grade: '', g] else [])"
  "section_blocks_list (grade_line edu) = []"
  by (simp_all add: grade_line_def split: option.splits)

lemma item_sidebar_skill:
  "heading_of (sidebar_skill rv st skill) = None"
  "section_blocks (sidebar_skill rv st skill) = []"
  "texts (sidebar_skill rv st skill) = skill_texts skill"
  by (simp_all add: sidebar_skill_def skill_texts_def)

lemma item_single_column_skill:
  "heading_of (single_column_skill rv st skill) = None"
  "section_blocks (single_column_skill rv st skill) = []"
  "texts (single_column_skill rv st skill) = skill_texts skill"
  by (simp_all add: single_column_skill_def skill_texts_def)

lemma item_sidebar_language:
  "heading_of (sidebar_language lang) = None"
  "section_blocks (sidebar_language lang) = []"
  "texts (sidebar_language lang) = language_texts lang"
  by (simp_all add: sidebar_language_def language_texts_def)

lemma item_single_column_language:
  "heading_of (single_column_language lang) = None"
  "section_blocks (single_column_language lang) = []"
  "texts (single_column_language lang) = language_texts lang"
  by (simp_all add: single_column_language_def language_texts_def)

lemma item_sidebar_certification:
  "heading_of (sidebar_certification host st cert) = None"
  "section_blocks (sidebar_certification host st cert) = []"
  "texts (sidebar_certification host st cert) = certification_texts host cert"
  by (simp_all add: sidebar_certification_def certification_texts_def)

lemma item_single_column_certification:
  "heading_of (single_column_certification host st cert) = None"
  "section_blocks (single_column_certification host st cert) = []"
  "texts (single_column_certification host st cert) = certification_texts host cert"
  by (simp_all add: single_column_certification_def certification_texts_def)

lemma item_sidebar_reference:
  "heading_of (sidebar_reference st ref) = None"
  "section_blocks (sidebar_reference st ref) = []"
  "texts (sidebar_reference st ref) = reference_texts ref"
  by (simp_all add: sidebar_reference_def reference_texts_def)

lemma item_single_column_reference:
  "heading_of (single_column_reference st ref) = None"
  "section_blocks (single_column_reference st ref) = []"
  "texts (single_column_reference st ref) = reference_texts ref"
  by (simp_all add: single_column_reference_def reference_texts_def)

lemma item_two_column_work_entry:
  "heading_of (two_column_work_entry host t st we) = None"
  "section_blocks (two_column_work_entry host t st we) = []"
  "texts (two_column_work_entry host t st we) = work_entry_texts host we"
  by (simp_all add: two_column_work_entry_def work_dates_def work_entry_texts_def
      blocks_accent_bar blocks_responsibility_items texts_responsibility_items
      block_of_no_heading)

lemma item_single_column_work_entry:
  "heading_of (single_column_work_entry host t st we) = None"
  "section_blocks (single_column_work_entry host t st we) = []"
  "texts (single_column_work_entry host t st we) = work_entry_texts host we"
  by (simp_all add: single_column_work_entry_def work_dates_def work_entry_texts_def
      blocks_accent_bar blocks_responsibility_items texts_responsibility_items
      block_of_no_heading)

lemma item_two_column_education_entry:
  "heading_of (two_column_education_entry host t st edu) = None"
  "section_blocks (two_column_education_entry host t st edu) = []"
  "texts (two_column_education_entry host t st edu) = education_entry_texts host edu"
  by (simp_all add: two_column_education_entry_def education_entry_texts_def
      blocks_accent_bar blocks_grade_line block_of_no_heading)

lemma item_single_column_education_entry:
  "heading_of (single_column_education_entry rv host st edu) = None"
  "section_blocks (single_column_education_entry rv host st edu) = []"
  "texts (single_column_education_entry rv host st edu) = education_entry_texts host edu"
  by (simp_all add: single_column_education_entry_def education_entry_texts_def
      blocks_grade_line)

lemma blocks_sidebar_photo:
  "section_blocks_list (sidebar_photo rv t d st) = []"
  "list_all (\<lambda>v. heading_of v = None) (sidebar_photo rv t d st)"
  by (simp_all add: sidebar_photo_def profile_img_def)

lemma blocks_sidebar_contact:
  "section_blocks (sidebar_contact d st) = [(''Contact'', contact_lines d)]"
  "heading_of (sidebar_contact d st) = None"
  by (simp_all add: sidebar_contact_def sidebar_contact_line_def sidebar_heading_def
      contact_lines_def)

lemma blocks_sidebar_skills:
  "section_blocks_list (sidebar_skills rv d st) = section_of ''Skills'' (skills d) skill_texts"
  "list_all (\<lambda>v. heading_of v = None) (sidebar_skills rv d st)"
  by (simp_all add: sidebar_skills_def sidebar_heading_def section_of_def texts_list_map item_sidebar_skill
      block_of_map_empty section_blocks_list_map_empty)

lemma blocks_sidebar_languages:
  "section_blocks_list (sidebar_languages d st) = section_of ''Languages'' (languages d) language_texts"
  "list_all (\<lambda>v. heading_of v = None) (sidebar_languages d st)"
  by (simp_all add: sidebar_languages_def sidebar_heading_def section_of_def texts_list_map item_sidebar_language
      block_of_map_empty section_blocks_list_map_empty)

lemma blocks_sidebar_certifications:
  "section_blocks_list (sidebar_certifications host d st) = section_of ''Certifications'' (certifications d) (certification_texts host)"
  "list_all (\<lambda>v. heading_of v = None) (sidebar_certifications host d st)"
  by (simp_all add: sidebar_certifications_def sidebar_heading_def section_of_def texts_list_map item_sidebar_certification
      block_of_map_empty section_blocks_list_map_empty)

lemma blocks_sidebar_references:
  "section_blocks_list (sidebar_references d st) = section_of ''References'' (references d) reference_texts"
  "list_all (\<lambda>v. heading_of v = None) (sidebar_references d st)"
  by (simp_all add: sidebar_references_def sidebar_heading_def section_of_def texts_list_map item_sidebar_reference
      block_of_map_empty section_blocks_list_map_empty)

lemma blocks_two_column_header:
  "section_blocks (two_column_header t d st) = []"
  "heading_of (two_column_header t d st) = None"
  by (simp_all add: two_column_header_def)

lemma blocks_two_column_summary:
  "section_blocks_list (two_column_summary d st) = summary_section d"
  "list_all (\<lambda>v. heading_of v = None) (two_column_summary d st)"
  by (simp_all add: two_column_summary_def summary_section_def)

lemma blocks_two_column_work:
  "section_blocks_list (two_column_work host t d st) =
     section_of ''Work Experience'' (workExperience d) (work_entry_texts host)"
  "list_all (\<lambda>v. heading_of v = None) (two_column_work host t d st)"
  by (simp_all add: two_column_work_def section_of_def texts_list_map
      item_two_column_work_entry block_of_map_empty section_blocks_list_map_empty)

lemma blocks_two_column_education:
  "section_blocks_list (two_column_education host t d st) =
     section_of ''Education'' (education d) (education_entry_texts host)"
  "list_all (\<lambda>v. heading_of v = None) (two_column_education host t d st)"
  by (simp_all add: two_column_education_def section_of_def texts_list_map
      item_two_column_education_entry block_of_map_empty section_blocks_list_map_empty)

lemma blocks_single_column_header:
  "section_blocks (single_column_header rv t d st) = []"
  "heading_of (single_column_header rv t d st) = None"
  by (simp_all add: single_column_header_def header_contact_def header_contact_line_def
      profile_img_def)

lemma blocks_single_column_summary:
  "section_blocks_list (single_column_summary d st) = summary_section d"
  "list_all (\<lambda>v. heading_of v = None) (single_column_summary d st)"
  by (simp_all add: single_column_summary_def section_heading_def summary_section_def)

lemma blocks_single_column_work:
  "section_blocks_list (single_column_work host t d st) = section_of ''Work Experience'' (workExperience d) (work_entry_texts host)"
  "list_all (\<lambda>v. heading_of v = None) (single_column_work host t d st)"
  by (simp_all add: single_column_work_def section_heading_def section_of_def texts_list_map item_single_column_work_entry
      block_of_map_empty section_blocks_list_map_empty)

lemma blocks_single_column_education:
  "section_blocks_list (single_column_education rv host d st) = section_of ''Education'' (education d) (education_entry_texts host)"
  "list_all (\<lambda>v. heading_of v = None) (single_column_education rv host d st)"
  by (simp_all add: single_column_education_def section_heading_def section_of_def texts_list_map item_single_column_education_entry
      block_of_map_empty section_blocks_list_map_empty)

lemma blocks_single_column_skills:
  "section_blocks_list (single_column_skills rv d st) = section_of ''Skills'' (skills d) skill_texts"
  "list_all (\<lambda>v. heading_of v = None) (single_column_skills rv d st)"
  by (simp_all add: single_column_skills_def section_heading_def section_of_def texts_list_map item_single_column_skill
      block_of_map_empty section_blocks_list_map_empty)

lemma blocks_single_column_languages:
  "section_blocks_list (single_column_languages d st) = section_of ''Languages'' (languages d) language_texts"
  "list_all (\<lambda>v. heading_of v = None) (single_column_languages d st)"
  by (simp_all add: single_column_languages_def section_heading_def section_of_def texts_list_map item_single_column_language
      block_of_map_empty section_blocks_list_map_empty)

lemma blocks_single_column_certifications:
  "section_blocks_list (single_column_certifications host d st) = section_of ''Certifications'' (certifications d) (certification_texts host)"
  "list_all (\<lambda>v. heading_of v = None) (single_column_certifications host d st)"
  by (simp_all add: single_column_certifications_def section_heading_def section_of_def texts_list_map item_single_column_certification
      block_of_map_empty section_blocks_list_map_empty)

lemma blocks_single_column_references:
  "section_blocks_list (single_column_references d st) = section_of ''References'' (references d) reference_texts"
  "list_all (\<lambda>v. heading_of v = None) (single_column_references d st)"
  by (simp_all add: single_column_references_def section_heading_def section_of_def texts_list_map item_single_column_reference
      block_of_map_empty section_blocks_list_map_empty)

lemmas blocks_sections =
  blocks_sidebar_photo blocks_sidebar_contact blocks_sidebar_skills blocks_sidebar_languages
  blocks_sidebar_certifications blocks_sidebar_references blocks_two_column_header
  blocks_two_column_summary blocks_two_column_work blocks_two_column_education
  blocks_single_column_header blocks_single_column_summary blocks_single_column_work
  blocks_single_column_education blocks_single_column_skills blocks_single_column_languages
  blocks_single_column_certifications blocks_single_column_references

lemma blocks_sidebar:
  "section_blocks (sidebar rv host t d st) =
     [(''Contact'', contact_lines d)]
     @ section_of ''Skills'' (skills d) skill_texts
     @ section_of ''Languages'' (languages d) language_texts
     @ section_of ''Certifications'' (certifications d) (certification_texts host)
     @ section_of ''References'' (references d) reference_texts"
  "heading_of (sidebar rv host t d st) = None"
  by (simp_all add: sidebar_def blocks_sections block_of_no_heading del: block_of_simps)

lemma blocks_content_column:
  "section_blocks (content_column host t d st) =
     summary_section d
     @ section_of ''Work Experience'' (workExperience d) (work_entry_texts host)
     @ section_of ''Education'' (education d) (education_entry_texts host)"
  "heading_of (content_column host t d st) = None"
  by (simp_all add: content_column_def blocks_sections)

lemma blocks_single_column_body:
  "section_blocks_list (single_column_body rv host t d st) = expected_sections False host d"
  by (simp add: single_column_body_def expected_sections_def blocks_sections
      block_of_no_heading del: block_of_simps)

lemma section_blocks_CVPreview_v1:
  "section_blocks (CVPreview_v1 host p) =
     expected_sections (columns (template p) = 2) host (data p)"
proof (cases "columns (template p) = 2")
  case True
  then show ?thesis
    by (simp add: CVPreview_v1_def Let_def blocks_sidebar blocks_content_column
        expected_sections_def)
next
  case False
  then show ?thesis
    by (simp add: CVPreview_v1_def Let_def blocks_single_column_body blocks_sections)
qed

lemma section_blocks_CVPreview_v2:
  "section_blocks (CVPreview_v2 host p) =
     expected_sections (columns (template p) = 2) host (data p)"
proof (cases "columns (template p) = 2")
  case True
  then show ?thesis
    by (cases "isFullPagePDF p")
      (simp_all add: CVPreview_v2_def Let_def blocks_sidebar blocks_content_column
        expected_sections_def)
next
  case False
  then show ?thesis
    by (cases "isFullPagePDF p")
      (simp_all add: CVPreview_v2_def Let_def blocks_single_column_body blocks_sections)
qed

lemma contact_section_expected:
  "map snd (filter (\<lambda>b. fst b = ''Contact'') (expected_sections two host d)) =
     (if two
      then [filter (\<lambda>v. v \<noteq> [])
              [email (personalInfo d), phone (personalInfo d), address (personalInfo d),
               website (personalInfo d)]]
      else [])"
  by (simp add: expected_sections_def section_of_def summary_section_def contact_lines_def)

lemma skills_section_expected:
  "map snd (filter (\<lambda>b. fst b = ''Skills'') (expected_sections two host d)) =
     (if skills d = [] then []
      else [concat (map (\<lambda>skill. [skill_name skill, level skill]) (skills d))])"
proof -
  have "skill_texts = (\<lambda>skill. [skill_name skill, level skill])"
    by (rule ext) (simp add: skill_texts_def)
  then show ?thesis
    by (simp add: expected_sections_def section_of_def summary_section_def)
qed

text \<open>
  Claim C5, as stated, fails in its general part: the two-column layout renders the
  Contact section, heading and all, for data that has no contact field at all.
\<close>

theorem contact_section_without_contact_data:
  "email (personalInfo initialCVData) = [] \<and> phone (personalInfo initialCVData) = []
   \<and> address (personalInfo initialCVData) = [] \<and> website (personalInfo initialCVData) = []
   \<and> has_section ''Contact'' (CVPreview_v1 utc_host (preview_props initialCVData professional))
   \<and> has_section ''Contact'' (CVPreview_v2 utc_host (preview_props initialCVData professional))"
  by (simp add: has_section_def h3_CVPreview_v1 h3_CVPreview_v2 section_titles_def
      preview_props_def initialCVData_def professional_def templates_def)

text \<open>
  Claim C5, amended: for every CVData whose skills list is empty the rendered tree has
  no Skills section, in both layouts and both revisions; more generally each of the
  sections Skills, Languages, Certifications, References, Work Experience and Education
  is rendered exactly when its collection is non-empty, and Professional Summary exactly
  when the summary is a non-empty string. The Contact section does not follow the data:
  the two-column layout always renders it, each contact line inside it exactly when its
  field is non-empty, and the single-column layout never does (its contact line is part
  of the header).

  A rendered section is more than its heading: the sections of the tree, each with the
  texts it shows, are exactly the sections that the data calls for with the texts of all
  their entries, in document order.
\<close>

theorem sections_rendered_iff_data:
  assumes "tree = CVPreview_v1 host p \<or> tree = CVPreview_v2 host p"
  shows "(has_section ''Skills'' tree \<longleftrightarrow> skills (data p) \<noteq> [])
   \<and> (has_section ''Languages'' tree \<longleftrightarrow> languages (data p) \<noteq> [])
   \<and> (has_section ''Certifications'' tree \<longleftrightarrow> certifications (data p) \<noteq> [])
   \<and> (has_section ''References'' tree \<longleftrightarrow> references (data p) \<noteq> [])
   \<and> (has_section ''Professional Summary'' tree \<longleftrightarrow> summary (data p) \<noteq> [])
   \<and> (has_section ''Work Experience'' tree \<longleftrightarrow> workExperience (data p) \<noteq> [])
   \<and> (has_section ''Education'' tree \<longleftrightarrow> education (data p) \<noteq> [])
   \<and> (has_section ''Contact'' tree \<longleftrightarrow> columns (template p) = 2)
   \<and> section_blocks tree = expected_sections (columns (template p) = 2) host (data p)
   \<and> section_texts ''Contact'' tree =
       (if columns (template p) = 2
        then [filter (\<lambda>v. v \<noteq> [])
                [email (personalInfo (data p)), phone (personalInfo (data p)),
                 address (personalInfo (data p)), website (personalInfo (data p))]]
        else [])
   \<and> section_texts ''Skills'' tree =
       (if skills (data p) = [] then []
        else [concat (map (\<lambda>skill. [skill_name skill, level skill]) (skills (data p)))])"
proof -
  have heads: "(has_section ''Skills'' tree \<longleftrightarrow> skills (data p) \<noteq> [])
   \<and> (has_section ''Languages'' tree \<longleftrightarrow> languages (data p) \<noteq> [])
   \<and> (has_section ''Certifications'' tree \<longleftrightarrow> certifications (data p) \<noteq> [])
   \<and> (has_section ''References'' tree \<longleftrightarrow> references (data p) \<noteq> [])
   \<and> (has_section ''Professional Summary'' tree \<longleftrightarrow> summary (data p) \<noteq> [])
   \<and> (has_section ''Work Experience'' tree \<longleftrightarrow> workExperience (data p) \<noteq> [])
   \<and> (has_section ''Education'' tree \<longleftrightarrow> education (data p) \<noteq> [])
   \<and> (has_section ''Contact'' tree \<longleftrightarrow> columns (template p) = 2)"
    unfolding has_section_CVPreview [OF assms] section_titles_def
    by (cases "columns (template p) = 2") (simp_all add: member_append_if split del: if_split)
  have blocks: "section_blocks tree = expected_sections (columns (template p) = 2) host (data p)"
    using assms section_blocks_CVPreview_v1 [of host p] section_blocks_CVPreview_v2 [of host p]
    by auto
  have contact: "section_texts ''Contact'' tree =
       (if columns (template p) = 2
        then [filter (\<lambda>v. v \<noteq> [])
                [email (personalInfo (data p)), phone (personalInfo (data p)),
                 address (personalInfo (data p)), website (personalInfo (data p))]]
        else [])"
    unfolding section_texts_def blocks by (rule contact_section_expected)
  have skills: "section_texts ''Skills'' tree =
       (if skills (data p) = [] then []
        else [concat (map (\<lambda>skill. [skill_name skill, level skill]) (skills (data p)))])"
    unfolding section_texts_def blocks by (rule skills_section_expected)
  from heads blocks contact skills show ?thesis
    by blast
qed

theorem sections_rendered_iff_data_witness:
  "has_section ''Skills'' (CVPreview_v2 utc_host (preview_props placeholderData professional))
   \<and> \<not> has_section ''Skills'' (CVPreview_v2 utc_host (preview_props initialCVData professional))
   \<and> \<not> has_section ''Skills'' (CVPreview_v1 utc_host (preview_props initialCVData creative))
   \<and> has_section ''Contact'' (CVPreview_v2 utc_host (preview_props initialCVData professional))
   \<and> section_blocks (CVPreview_v2 utc_host (preview_props initialCVData professional)) =
       [(''Contact'', [])]
   \<and> section_blocks (CVPreview_v1 utc_host (preview_props initialCVData creative)) = []
   \<and> section_texts ''Contact''
        (CVPreview_v2 utc_host (preview_props placeholderData professional)) =
       [[''your.email@example.com'', ''+1 (555) 000-0000'', ''Your City, State'',
         ''www.yourwebsite.com'']]
   \<and> section_texts ''Skills''
        (CVPreview_v2 utc_host (preview_props placeholderData professional)) =
       [[''Skill 1'', ''Advanced'', ''Skill 2'', ''Expert'', ''Skill 3'', ''Intermediate'',
         ''Skill 4'', ''Advanced'']]"
  using sections_rendered_iff_data [of "CVPreview_v2 utc_host (preview_props placeholderData professional)"
      utc_host "preview_props placeholderData professional"]
    sections_rendered_iff_data [of "CVPreview_v2 utc_host (preview_props initialCVData professional)"
      utc_host "preview_props initialCVData professional"]
    sections_rendered_iff_data [of "CVPreview_v1 utc_host (preview_props initialCVData creative)"
      utc_host "preview_props initialCVData creative"]
  by (simp add: preview_props_def placeholderData_def initialCVData_def professional_def
      creative_def templates_def expected_sections_def section_of_def summary_section_def
      contact_lines_def)

subsection \<open>The header\<close>

lemma h1_responsibility_items: "texts_of_list ''h1'' (responsibility_items rs) = []"
  unfolding responsibility_items_def
  by (rule texts_of_list_map_empty) (simp split: prod.splits)

lemma h1_grade_line: "texts_of_list ''h1'' (grade_line edu) = []"
  by (simp add: grade_line_def split: option.splits)

lemma h1_sidebar: "texts_of ''h1'' (sidebar rv host t d st) = []"
  by (simp add: sidebar_def sidebar_photo_def profile_img_def sidebar_contact_def
      sidebar_contact_line_def sidebar_heading_def sidebar_skills_def sidebar_skill_def
      sidebar_languages_def sidebar_language_def sidebar_certifications_def
      sidebar_certification_def sidebar_references_def sidebar_reference_def
      texts_of_list_map_empty)

lemma p_sidebar: "texts_of ''p'' (sidebar rv host t d st) = []"
  by (simp add: sidebar_def sidebar_photo_def profile_img_def sidebar_contact_def
      sidebar_contact_line_def sidebar_heading_def sidebar_skills_def sidebar_skill_def
      sidebar_languages_def sidebar_language_def sidebar_certifications_def
      sidebar_certification_def sidebar_references_def sidebar_reference_def
      texts_of_list_map_empty)

lemma h1_two_column_header:
  "texts_of ''h1'' (two_column_header t d st) = [js_or (fullName (personalInfo d)) ''Your Name'']"
  by (simp add: two_column_header_def)

lemma p_two_column_header:
  "texts_of ''p'' (two_column_header t d st) = [js_or (jobTitle (personalInfo d)) ''Your Job Title'']"
  by (simp add: two_column_header_def)

lemma h1_two_column_rest:
  "texts_of_list ''h1'' (two_column_summary d st) = []"
  "texts_of_list ''h1'' (two_column_work host t d st) = []"
  "texts_of_list ''h1'' (two_column_education host t d st) = []"
  by (simp_all add: two_column_summary_def two_column_work_def two_column_work_entry_def
      accent_bar_def work_dates_def h1_responsibility_items two_column_education_def
      two_column_education_entry_def h1_grade_line texts_of_list_map_empty)

lemma h1_single_column_header:
  "texts_of ''h1'' (single_column_header rv t d st) =
     [js_or (fullName (personalInfo d)) ''Your Name'']"
  by (simp add: single_column_header_def header_contact_def header_contact_line_def
      profile_img_def)

lemma p_single_column_header:
  "texts_of ''p'' (single_column_header rv t d st) =
     [js_or (jobTitle (personalInfo d)) ''Your Job Title'']"
  by (simp add: single_column_header_def header_contact_def header_contact_line_def
      profile_img_def)

lemma h1_single_column_rest:
  "texts_of_list ''h1'' (single_column_summary d st) = []"
  "texts_of_list ''h1'' (single_column_work host t d st) = []"
  "texts_of_list ''h1'' (single_column_education rv host d st) = []"
  "texts_of_list ''h1'' (single_column_skills rv d st) = []"
  "texts_of_list ''h1'' (single_column_languages d st) = []"
  "texts_of_list ''h1'' (single_column_certifications host d st) = []"
  "texts_of_list ''h1'' (single_column_references d st) = []"
  by (simp_all add: single_column_summary_def section_heading_def single_column_work_def
      single_column_work_entry_def accent_bar_def work_dates_def h1_responsibility_items
      single_column_education_def single_column_education_entry_def h1_grade_line
      single_column_skills_def single_column_skill_def single_column_languages_def
      single_column_language_def single_column_certifications_def
      single_column_certification_def single_column_references_def
      single_column_reference_def texts_of_list_map_empty)

lemma h1_content_column:
  "texts_of ''h1'' (content_column host t d st) =
     [js_or (fullName (personalInfo d)) ''Your Name'']"
  by (simp add: content_column_def h1_two_column_header h1_two_column_rest)

lemma p_content_column:
  "take 1 (texts_of ''p'' (content_column host t d st)) =
     [js_or (jobTitle (personalInfo d)) ''Your Job Title'']"
  by (simp add: content_column_def p_two_column_header)

lemma h1_single_column_body:
  "texts_of_list ''h1'' (single_column_body rv host t d st) =
     [js_or (fullName (personalInfo d)) ''Your Name'']"
  by (simp add: single_column_body_def h1_single_column_header h1_single_column_rest)

lemma p_single_column_body:
  "take 1 (texts_of_list ''p'' (single_column_body rv host t d st)) =
     [js_or (jobTitle (personalInfo d)) ''Your Job Title'']"
  by (simp add: single_column_body_def p_single_column_header)

lemma h1_CVPreview:
  "texts_of ''h1'' (CVPreview_v1 host p) = [js_or (fullName (personalInfo (data p))) ''Your Name'']"
  "texts_of ''h1'' (CVPreview_v2 host p) = [js_or (fullName (personalInfo (data p))) ''Your Name'']"
  by (simp_all add: CVPreview_v1_def CVPreview_v2_def Let_def h1_sidebar h1_content_column
      h1_single_column_body)

lemma p_CVPreview:
  "take 1 (texts_of ''p'' (CVPreview_v1 host p)) =
     [js_or (jobTitle (personalInfo (data p))) ''Your Job Title'']"
  "take 1 (texts_of ''p'' (CVPreview_v2 host p)) =
     [js_or (jobTitle (personalInfo (data p))) ''Your Job Title'']"
  using p_content_column [of host "template p" "data p" "getTemplateStyles (template p)"]
    p_single_column_body [of Rev1 host "template p" "data p" "getTemplateStyles (template p)"]
    p_single_column_body [of Rev2 host "template p" "data p" "getTemplateStyles (template p)"]
  by (simp_all add: CVPreview_v1_def CVPreview_v2_def Let_def p_sidebar)

text \<open>
  Claim C10: for every template, in both column layouts and both revisions, the header
  shows \<^verbatim>\<open>Your Name\<close> when \<^verbatim>\<open>personalInfo.fullName\<close> is the empty string and
  \<^verbatim>\<open>Your Job Title\<close> when \<^verbatim>\<open>personalInfo.jobTitle\<close> is; a non-empty value is shown
  verbatim. The name is the text of the only \<^verbatim>\<open>h1\<close> element of the tree, the job title is
  the text of its first \<^verbatim>\<open>p\<close> element, and the two are the first texts of the header of
  either layout.
\<close>

theorem header_name_and_title_fallback:
  "texts_of ''h1'' (CVPreview_v1 host p) =
     [if fullName (personalInfo (data p)) = [] then ''Your Name''
      else fullName (personalInfo (data p))]
   \<and> texts_of ''h1'' (CVPreview_v2 host p) =
     [if fullName (personalInfo (data p)) = [] then ''Your Name''
      else fullName (personalInfo (data p))]
   \<and> take 1 (texts_of ''p'' (CVPreview_v1 host p)) =
     [if jobTitle (personalInfo (data p)) = [] then ''Your Job Title''
      else jobTitle (personalInfo (data p))]
   \<and> take 1 (texts_of ''p'' (CVPreview_v2 host p)) =
     [if jobTitle (personalInfo (data p)) = [] then ''Your Job Title''
      else jobTitle (personalInfo (data p))]
   \<and> take 2 (texts (two_column_header (template p) (data p) st)) =
     [if fullName (personalInfo (data p)) = [] then ''Your Name''
      else fullName (personalInfo (data p)),
      if jobTitle (personalInfo (data p)) = [] then ''Your Job Title''
      else jobTitle (personalInfo (data p))]
   \<and> take 2 (texts (single_column_header rv (template p) (data p) st)) =
     [if fullName (personalInfo (data p)) = [] then ''Your Name''
      else fullName (personalInfo (data p)),
      if jobTitle (personalInfo (data p)) = [] then ''Your Job Title''
      else jobTitle (personalInfo (data p))]"
proof -
  have hdr2: "take 2 (texts (two_column_header (template p) (data p) st)) =
     [js_or (fullName (personalInfo (data p))) ''Your Name'',
      js_or (jobTitle (personalInfo (data p))) ''Your Job Title'']"
    by (simp add: two_column_header_def)
  have hdr1: "take 2 (texts (single_column_header rv (template p) (data p) st)) =
     [js_or (fullName (personalInfo (data p))) ''Your Name'',
      js_or (jobTitle (personalInfo (data p))) ''Your Job Title'']"
    by (simp add: single_column_header_def profile_img_def)
  show ?thesis
    using h1_CVPreview [of host p] p_CVPreview [of host p] hdr2 hdr1
    unfolding js_or_def by (simp only: simp_thms)
qed

theorem header_name_and_title_fallback_witness:
  "texts_of ''h1'' (CVPreview_v2 utc_host (preview_props initialCVData professional)) =
     [''Your Name'']
   \<and> take 1 (texts_of ''p'' (CVPreview_v1 utc_host (preview_props initialCVData creative))) =
     [''Your Job Title'']
   \<and> texts_of ''h1''
        (CVPreview_v1 utc_host
           (preview_props (initialCVData\<lparr>personalInfo :=
              (personalInfo initialCVData)\<lparr>fullName := ''Jane Doe''\<rparr>\<rparr>) professional)) =
     [''Jane Doe'']"
  using header_name_and_title_fallback [of utc_host "preview_props initialCVData professional"]
    header_name_and_title_fallback [of utc_host "preview_props initialCVData creative"]
    header_name_and_title_fallback [of utc_host
      "preview_props (initialCVData\<lparr>personalInfo :=
              (personalInfo initialCVData)\<lparr>fullName := ''Jane Doe''\<rparr>\<rparr>) professional"]
  by (simp add: preview_props_def initialCVData_def)

subsection \<open>Work experience\<close>

lemma texts_work_entry:
  assumes "current we"
  shows "texts (two_column_work_entry host t st we) =
           [exp_jobTitle we, company we, formatDate host (exp_startDate we), '' - '', ''Present'']
           @ filter (\<lambda>r. js_trim r \<noteq> []) (responsibilities we)"
    and "texts (single_column_work_entry host t st we) =
           [exp_jobTitle we, company we, formatDate host (exp_startDate we), '' - '', ''Present'']
           @ filter (\<lambda>r. js_trim r \<noteq> []) (responsibilities we)"
  using assms
  by (simp_all add: two_column_work_entry_def single_column_work_entry_def work_dates_def
      blocks_accent_bar texts_responsibility_items)

lemma work_entry_ignore_end:
  "two_column_work_entry host t st (ignore_end f we) = two_column_work_entry host t st we"
  "single_column_work_entry host t st (ignore_end f we) = single_column_work_entry host t st we"
  by (simp_all add: ignore_end_def two_column_work_entry_def single_column_work_entry_def
      work_dates_def)

lemma work_ignore_end:
  "two_column_work host t (d\<lparr>workExperience := map (ignore_end f) (workExperience d)\<rparr>) st =
     two_column_work host t d st"
  "single_column_work host t (d\<lparr>workExperience := map (ignore_end f) (workExperience d)\<rparr>) st =
     single_column_work host t d st"
  by (simp_all add: two_column_work_def single_column_work_def work_entry_ignore_end)

lemma sidebar_workExperience:
  "sidebar rv host t (d\<lparr>workExperience := ws\<rparr>) st = sidebar rv host t d st"
  by (simp add: sidebar_def sidebar_photo_def profile_img_def sidebar_contact_def
      sidebar_skills_def sidebar_languages_def sidebar_certifications_def
      sidebar_references_def)

lemma content_column_ignore_end:
  "content_column host t (d\<lparr>workExperience := map (ignore_end f) (workExperience d)\<rparr>) st =
     content_column host t d st"
  by (simp add: content_column_def work_ignore_end two_column_header_def
      two_column_summary_def two_column_education_def)

lemma single_column_body_ignore_end:
  "single_column_body rv host t (d\<lparr>workExperience := map (ignore_end f) (workExperience d)\<rparr>) st =
     single_column_body rv host t d st"
  by (simp add: single_column_body_def work_ignore_end single_column_header_def
      profile_img_def header_contact_def single_column_summary_def
      single_column_education_def single_column_skills_def single_column_languages_def
      single_column_certifications_def single_column_references_def)

lemma CVPreview_ignore_end:
  "CVPreview_v1 host
     (p\<lparr>data := (data p)\<lparr>workExperience := map (ignore_end f) (workExperience (data p))\<rparr>\<rparr>) =
   CVPreview_v1 host p"
  "CVPreview_v2 host
     (p\<lparr>data := (data p)\<lparr>workExperience := map (ignore_end f) (workExperience (data p))\<rparr>\<rparr>) =
   CVPreview_v2 host p"
  by (simp_all add: CVPreview_v1_def CVPreview_v2_def Let_def sidebar_workExperience
      content_column_ignore_end single_column_body_ignore_end outerBase_def chrome_def
      textSize_def overflowClip_def unboundedStyle_def)

lemma texts_map_member:
  "x \<in> set xs \<Longrightarrow> set (texts (f x)) \<subseteq> set (texts_list (map f xs))"
  by (induction xs) auto

lemma Present_in_work:
  assumes "we \<in> set (workExperience d)" and "current we"
  shows "''Present'' \<in> set (texts_list (two_column_work host t d st))"
    and "''Present'' \<in> set (texts_list (single_column_work host t d st))"
proof -
  from assms(1) have ne: "workExperience d \<noteq> []" by auto
  have "''Present'' \<in> set (texts (two_column_work_entry host t st we))"
    using texts_work_entry(1) [OF assms(2)] by simp
  with texts_map_member [OF assms(1), of "two_column_work_entry host t st"] ne
  show "''Present'' \<in> set (texts_list (two_column_work host t d st))"
    by (auto simp: two_column_work_def)
  have "''Present'' \<in> set (texts (single_column_work_entry host t st we))"
    using texts_work_entry(2) [OF assms(2)] by simp
  with texts_map_member [OF assms(1), of "single_column_work_entry host t st"] ne
  show "''Present'' \<in> set (texts_list (single_column_work host t d st))"
    by (auto simp: single_column_work_def)
qed

lemma Present_in_CVPreview:
  assumes "we \<in> set (workExperience (data p))" and "current we"
  shows "''Present'' \<in> set (texts (CVPreview_v1 host p))"
    and "''Present'' \<in> set (texts (CVPreview_v2 host p))"
  using Present_in_work [OF assms, of host "template p" "getTemplateStyles (template p)"]
  by (simp_all add: CVPreview_v1_def CVPreview_v2_def Let_def content_column_def
      single_column_body_def)

lemma nodes_list_append [simp]: "nodes_list (xs @ ys) = nodes_list xs @ nodes_list ys"
  by (induction xs) simp_all

lemma nodes_self: "v \<in> set (nodes v)"
  by (cases v) simp_all

lemma nodes_list_map_member: "x \<in> set xs \<Longrightarrow> f x \<in> set (nodes_list (map f xs))"
  by (induction xs) (auto simp: nodes_self)

lemma work_entry_in_work:
  assumes "we \<in> set (workExperience d)"
  shows "two_column_work_entry host t st we \<in> set (nodes_list (two_column_work host t d st))"
    and "single_column_work_entry host t st we
           \<in> set (nodes_list (single_column_work host t d st))"
proof -
  from assms have ne: "workExperience d \<noteq> []" by auto
  with nodes_list_map_member [OF assms, of "two_column_work_entry host t st"]
  show "two_column_work_entry host t st we \<in> set (nodes_list (two_column_work host t d st))"
    by (simp add: two_column_work_def)
  from ne nodes_list_map_member [OF assms, of "single_column_work_entry host t st"]
  show "single_column_work_entry host t st we
          \<in> set (nodes_list (single_column_work host t d st))"
    by (simp add: single_column_work_def)
qed

lemma work_entry_in_CVPreview:
  assumes "we \<in> set (workExperience (data p))"
  shows "(if columns (template p) = 2
          then two_column_work_entry host (template p) (getTemplateStyles (template p)) we
          else single_column_work_entry host (template p) (getTemplateStyles (template p)) we)
         \<in> set (nodes (CVPreview_v1 host p))"
    and "(if columns (template p) = 2
          then two_column_work_entry host (template p) (getTemplateStyles (template p)) we
          else single_column_work_entry host (template p) (getTemplateStyles (template p)) we)
         \<in> set (nodes (CVPreview_v2 host p))"
  using work_entry_in_work [OF assms, of host "template p" "getTemplateStyles (template p)"]
  by (simp_all add: CVPreview_v1_def CVPreview_v2_def Let_def content_column_def
      single_column_body_def)

lemma work_section_expected:
  "map snd (filter (\<lambda>b. fst b = ''Work Experience'') (expected_sections two host d)) =
     (if workExperience d = [] then []
      else [concat (map (work_entry_texts host) (workExperience d))])"
  by (simp add: expected_sections_def section_of_def summary_section_def)

lemma work_section_CVPreview:
  "section_texts ''Work Experience'' (CVPreview_v1 host p) =
     (if workExperience (data p) = [] then []
      else [concat (map (work_entry_texts host) (workExperience (data p)))])"
  "section_texts ''Work Experience'' (CVPreview_v2 host p) =
     (if workExperience (data p) = [] then []
      else [concat (map (work_entry_texts host) (workExperience (data p)))])"
  unfolding section_texts_def section_blocks_CVPreview_v1 section_blocks_CVPreview_v2
  by (rule work_section_expected)+

text \<open>
  Claim C2: for every work-experience entry with \<^verbatim>\<open>current = true\<close> and any stored
  \<^verbatim>\<open>endDate\<close>, the rendered tree shows \<^verbatim>\<open>Present\<close> as the entry's end date and never
  the stored end date, in both column layouts.

  The texts of the entry are its job title, its company, its formatted start date, the
  dash, \<^verbatim>\<open>Present\<close> and those of its responsibilities that are not blank, and the entry
  is rendered the same whatever end date it stores. The tree of either revision shows
  the entry: the node of every entry of the data is a node of the tree, in the layout
  of the template, and the Work Experience section of the tree shows the texts of all
  the entries of the data in their order and nothing else, each entry with its own end
  date, which is \<^verbatim>\<open>Present\<close> for a current one. The whole tree is unchanged when the
  stored end dates of the current entries are replaced.
\<close>

theorem current_job_renders_Present:
  assumes "current we"
  shows "texts (two_column_work_entry host t st we) =
           [exp_jobTitle we, company we, formatDate host (exp_startDate we), '' - '', ''Present'']
           @ filter (\<lambda>r. js_trim r \<noteq> []) (responsibilities we)
   \<and> texts (single_column_work_entry host t st we) =
           [exp_jobTitle we, company we, formatDate host (exp_startDate we), '' - '', ''Present'']
           @ filter (\<lambda>r. js_trim r \<noteq> []) (responsibilities we)
   \<and> two_column_work_entry host t st (we\<lparr>exp_endDate := e\<rparr>) =
       two_column_work_entry host t st we
   \<and> single_column_work_entry host t st (we\<lparr>exp_endDate := e\<rparr>) =
       single_column_work_entry host t st we
   \<and> (List.member (workExperience (data p)) we \<longrightarrow>
        List.member (texts (CVPreview_v1 host p)) ''Present''
        \<and> List.member (texts (CVPreview_v2 host p)) ''Present'')
   \<and> (List.member (workExperience (data p)) we \<longrightarrow>
        List.member (nodes (CVPreview_v1 host p))
          (if columns (template p) = 2
           then two_column_work_entry host (template p) (getTemplateStyles (template p)) we
           else single_column_work_entry host (template p) (getTemplateStyles (template p)) we)
        \<and> List.member (nodes (CVPreview_v2 host p))
          (if columns (template p) = 2
           then two_column_work_entry host (template p) (getTemplateStyles (template p)) we
           else single_column_work_entry host (template p) (getTemplateStyles (template p)) we))
   \<and> section_texts ''Work Experience'' (CVPreview_v1 host p) =
       (if workExperience (data p) = [] then []
        else [concat (map (work_entry_texts host) (workExperience (data p)))])
   \<and> section_texts ''Work Experience'' (CVPreview_v2 host p) =
       (if workExperience (data p) = [] then []
        else [concat (map (work_entry_texts host) (workExperience (data p)))])
   \<and> work_entry_texts host we =
       [exp_jobTitle we, company we, formatDate host (exp_startDate we), '' - '', ''Present'']
       @ filter (\<lambda>r. js_trim r \<noteq> []) (responsibilities we)
   \<and> CVPreview_v1 host
        (p\<lparr>data := (data p)\<lparr>workExperience := map (ignore_end f) (workExperience (data p))\<rparr>\<rparr>) =
      CVPreview_v1 host p
   \<and> CVPreview_v2 host
        (p\<lparr>data := (data p)\<lparr>workExperience := map (ignore_end f) (workExperience (data p))\<rparr>\<rparr>) =
      CVPreview_v2 host p"
proof -
  have e2: "two_column_work_entry host t st (we\<lparr>exp_endDate := e\<rparr>) =
       two_column_work_entry host t st we"
    using assms work_entry_ignore_end(1) [where host = host and t = t and st = st and f = "\<lambda>w. e" and we = we] by (simp add: ignore_end_def)
  have e1: "single_column_work_entry host t st (we\<lparr>exp_endDate := e\<rparr>) =
       single_column_work_entry host t st we"
    using assms work_entry_ignore_end(2) [where host = host and t = t and st = st and f = "\<lambda>w. e" and we = we] by (simp add: ignore_end_def)
  have wt: "work_entry_texts host we =
       [exp_jobTitle we, company we, formatDate host (exp_startDate we), '' - '', ''Present'']
       @ filter (\<lambda>r. js_trim r \<noteq> []) (responsibilities we)"
    using assms by (simp add: work_entry_texts_def)
  have nd: "List.member (workExperience (data p)) we \<longrightarrow>
        List.member (nodes (CVPreview_v1 host p))
          (if columns (template p) = 2
           then two_column_work_entry host (template p) (getTemplateStyles (template p)) we
           else single_column_work_entry host (template p) (getTemplateStyles (template p)) we)
        \<and> List.member (nodes (CVPreview_v2 host p))
          (if columns (template p) = 2
           then two_column_work_entry host (template p) (getTemplateStyles (template p)) we
           else single_column_work_entry host (template p) (getTemplateStyles (template p)) we)"
    using work_entry_in_CVPreview [where we = we and p = p and host = host]
    by (simp del: nodes.simps split del: if_split)
  have pr: "List.member (workExperience (data p)) we \<longrightarrow>
        List.member (texts (CVPreview_v1 host p)) ''Present''
        \<and> List.member (texts (CVPreview_v2 host p)) ''Present''"
    using Present_in_CVPreview [where we = we and p = p and host = host] assms by simp
  from texts_work_entry [OF assms, where host = host and t = t and st = st] e2 e1 pr nd
    work_section_CVPreview [where host = host and p = p] wt
    CVPreview_ignore_end [where host = host and p = p and f = f]
  show ?thesis
    by blast
qed

theorem current_job_renders_Present_witness:
  "current current_job
   \<and> exp_endDate current_job = ''2023-05''
   \<and> texts (two_column_work_entry utc_host professional (getTemplateStyles professional)
        current_job) =
       [''Senior Software Engineer'', ''TechCorp Inc.'', ''Jan 2022'', '' - '', ''Present'',
        ''Mentor team of 5 junior developers and conduct code reviews'']
   \<and> texts (single_column_work_entry utc_host creative (getTemplateStyles creative)
        current_job) =
       [''Senior Software Engineer'', ''TechCorp Inc.'', ''Jan 2022'', '' - '', ''Present'',
        ''Mentor team of 5 junior developers and conduct code reviews'']
   \<and> List.member
        (texts (CVPreview_v2 utc_host
           (preview_props (initialCVData\<lparr>workExperience := [current_job]\<rparr>) professional)))
        ''Present''
   \<and> List.member
        (nodes (CVPreview_v2 utc_host
           (preview_props (initialCVData\<lparr>workExperience := [current_job]\<rparr>) professional)))
        (two_column_work_entry utc_host professional (getTemplateStyles professional)
           current_job)
   \<and> List.member
        (nodes (CVPreview_v1 utc_host
           (preview_props (initialCVData\<lparr>workExperience := [current_job]\<rparr>) creative)))
        (single_column_work_entry utc_host creative (getTemplateStyles creative) current_job)
   \<and> section_texts ''Work Experience''
        (CVPreview_v2 utc_host
           (preview_props (initialCVData\<lparr>workExperience := [current_job]\<rparr>) professional)) =
       [[''Senior Software Engineer'', ''TechCorp Inc.'', ''Jan 2022'', '' - '', ''Present'',
         ''Mentor team of 5 junior developers and conduct code reviews'']]
   \<and> section_texts ''Work Experience''
        (CVPreview_v1 utc_host
           (preview_props (initialCVData\<lparr>workExperience := [current_job]\<rparr>) creative)) =
       [[''Senior Software Engineer'', ''TechCorp Inc.'', ''Jan 2022'', '' - '', ''Present'',
         ''Mentor team of 5 junior developers and conduct code reviews'']]"
  using current_job_renders_Present [where we = current_job and host = utc_host
      and t = professional and st = "getTemplateStyles professional" and e = "[]" and f = "\<lambda>w. []"
      and p = "preview_props (initialCVData\<lparr>workExperience := [current_job]\<rparr>) professional"]
    current_job_renders_Present [where we = current_job and host = utc_host
      and t = creative and st = "getTemplateStyles creative" and e = "[]" and f = "\<lambda>w. []"
      and p = "preview_props (initialCVData\<lparr>workExperience := [current_job]\<rparr>) creative"]
  by (simp add: current_job_def preview_props_def formatDate_def toLocaleDateString_def era_year_def
      utc_host_def digit_value_def month_of_index_def days_in_month_def digit_char_def
      show_nat.simps js_trim_def is_white_space_def professional_def creative_def templates_def
      initialCVData_def del: nodes.simps)

subsection \<open>Rendering and the state around it\<close>

lemma mount_tree_independent_of_root:
  "fst (mount_v1 host p rs) = fst (mount_v1 host p rs')
   \<and> fst (mount_v2 host p rs) = fst (mount_v2 host p rs')"
  by (simp add: mount_v1_def mount_v2_def)

lemma mount_v2_leaves_root: "snd (mount_v2 host p rs) = rs"
  by (simp add: mount_v2_def)

lemma CVPreview_v1_effect_blue:
  "color t = ''blue'' \<Longrightarrow>
   CVPreview_v1_effect t rs =
     rs(''--template-primary'' \<mapsto> ''217, 91%, 60%'',
        ''--template-secondary'' \<mapsto> ''217, 91%, 95%'',
        ''--template-accent'' \<mapsto> ''217, 91%, 50%'')"
  by (simp add: CVPreview_v1_effect_def Let_def getColorValues_v1_def js_get_def colorMap_def
      color_field_def string_of_field_def setProperty_def)

text \<open>
  Claim C1: rendering twice with identical inputs gives identical trees, and rendering
  is free of side effects: it reads no hidden mutable state and writes no state outside
  its output.

  The tree of either revision is a function of the props and the host alone
  (\<open>mount_tree_independent_of_root\<close>), and revision 2 leaves the document root as it was
  (\<open>mount_v2_leaves_root\<close>). Revision 1 does not: once rendered with the professional
  template, whose colour is blue, the document root carries the three theme variables,
  and its clean-up removes a variable that was set before the component was there.
\<close>

theorem CVPreview_v1_writes_document_root:
  "snd (mount_v1 host (preview_props d professional) Map.empty) ''--template-primary'' =
     Some ''217, 91%, 60%''
   \<and> snd (mount_v1 host (preview_props d professional) Map.empty) ''--template-secondary'' =
     Some ''217, 91%, 95%''
   \<and> snd (mount_v1 host (preview_props d professional) Map.empty) ''--template-accent'' =
     Some ''217, 91%, 50%''
   \<and> snd (mount_v1 host (preview_props d professional) Map.empty) \<noteq> Map.empty
   \<and> CVPreview_v1_cleanup
        (snd (mount_v1 host (preview_props d professional)
           [''--template-primary'' \<mapsto> ''0, 0%, 0%'']))
        ''--template-primary'' = None"
proof -
  have blue: "color (template (preview_props d professional)) = ''blue''"
    by (simp add: preview_props_def professional_def templates_def)
  have eff: "snd (mount_v1 host (preview_props d professional) rs) =
      rs(''--template-primary'' \<mapsto> ''217, 91%, 60%'',
         ''--template-secondary'' \<mapsto> ''217, 91%, 95%'',
         ''--template-accent'' \<mapsto> ''217, 91%, 50%'')" for rs
    using CVPreview_v1_effect_blue [OF blue] by (simp add: mount_v1_def)
  have ne: "snd (mount_v1 host (preview_props d professional) Map.empty) \<noteq> Map.empty"
  proof
    assume "snd (mount_v1 host (preview_props d professional) Map.empty) = Map.empty"
    then have "snd (mount_v1 host (preview_props d professional) Map.empty)
        ''--template-primary'' = None"
      by simp
    then show False
      by (simp add: eff)
  qed
  show ?thesis
    using ne by (simp add: eff CVPreview_v1_cleanup_def removeProperty_def)
qed

end
